theory Spec2Isabelle
  imports Main "HOL-Library.AList"
begin

section \<open>Python values, exceptions and string helpers\<close>

text \<open>
  The exceptions the modelled code can raise. Every one of them is a subclass of
  Python's \<open>Exception\<close>, so \<open>except Exception\<close> and a bare \<open>except:\<close> both catch
  them. \<open>BackendError\<close> stands for whatever the text-generation client raises
  (network, authentication, rate limit), with its message.
\<close>

datatype py_error =
    KeyError
  | TypeError
  | AttributeError
  | ValueError
  | IndexError
  | OverflowError
  | JSONDecodeError
  | BackendError string

text \<open>
  What \<open>json.loads\<close> can return: any JSON value. A dict is an association list in
  insertion order; a lookup reads the first entry of a key. A float is kept as an
  opaque pair, the code never computes with one.
\<close>

datatype pyjson =
    JNull
  | JBool bool
  | JInt int
  | JFloat int int
  | JStr string
  | JList "pyjson list"
  | JDict "(string \<times> pyjson) list"

text \<open>\<open>v[key]\<close> for a string key: only a dict can be subscripted by a string.\<close>

fun getitem :: "pyjson \<Rightarrow> string \<Rightarrow> py_error + pyjson" where
  "getitem (JDict kv) k = (case map_of kv k of None \<Rightarrow> Inl KeyError | Some v \<Rightarrow> Inr v)"
| "getitem JNull k = Inl TypeError"
| "getitem (JBool b) k = Inl TypeError"
| "getitem (JInt i) k = Inl TypeError"
| "getitem (JFloat m e) k = Inl TypeError"
| "getitem (JStr s) k = Inl TypeError"
| "getitem (JList xs) k = Inl TypeError"

definition digit_char :: "nat \<Rightarrow> char" where
  "digit_char n = ''0123456789'' ! (n mod 10)"

fun str_nat :: "nat \<Rightarrow> string" where
  "str_nat n =
     (if n < 10 then [digit_char n] else str_nat (n div 10) @ [digit_char (n mod 10)])"

declare str_nat.simps [simp del]

text \<open>\<open>str(i)\<close> of an int.\<close>

definition str_int :: "int \<Rightarrow> string" where
  "str_int i = (if 0 \<le> i then str_nat (nat i) else CHR ''-'' # str_nat (nat (- i)))"

text \<open>The format specs \<open>:02d\<close> and \<open>%d\<close> of strftime: at least two digits.\<close>

definition pad2 :: "nat \<Rightarrow> string" where
  "pad2 n = (if n < 10 then ''0'' @ str_nat n else str_nat n)"

definition pad3 :: "nat \<Rightarrow> string" where
  "pad3 n = (if n < 10 then ''00'' @ str_nat n
             else if n < 100 then ''0'' @ str_nat n else str_nat n)"

text \<open>The format spec \<open>:,\<close> on an int: groups of three digits.\<close>

fun commas_nat :: "nat \<Rightarrow> string" where
  "commas_nat n =
     (if n < 1000 then str_nat n else commas_nat (n div 1000) @ '','' @ pad3 (n mod 1000))"

declare commas_nat.simps [simp del]

definition format_commas :: "int \<Rightarrow> string" where
  "format_commas i = (if i < 0 then ''-'' @ commas_nat (nat (- i)) else commas_nat (nat i))"

definition is_space :: "char \<Rightarrow> bool" where
  "is_space c = (c \<in> set [CHR '' '', CHR 0x09, CHR 0x0A, CHR 0x0B, CHR 0x0C, CHR 0x0D,
                            CHR 0x1C, CHR 0x1D, CHR 0x1E, CHR 0x1F])"

definition strip :: "string \<Rightarrow> string" where
  "strip s = rev (dropWhile is_space (rev (dropWhile is_space s)))"

definition is_lower :: "char \<Rightarrow> bool" where
  "is_lower c = (97 \<le> (of_char c :: nat) \<and> (of_char c :: nat) \<le> 122)"

definition is_upper :: "char \<Rightarrow> bool" where
  "is_upper c = (65 \<le> (of_char c :: nat) \<and> (of_char c :: nat) \<le> 90)"

definition to_upper :: "char \<Rightarrow> char" where
  "to_upper c = (if is_lower c then char_of ((of_char c :: nat) - 32) else c)"

definition to_lower :: "char \<Rightarrow> char" where
  "to_lower c = (if is_upper c then char_of ((of_char c :: nat) + 32) else c)"

definition lower :: "string \<Rightarrow> string" where
  "lower s = map to_lower s"

text \<open>\<open>s.replace("_", " ")\<close>, one character for one character.\<close>

definition replace_char :: "char \<Rightarrow> char \<Rightarrow> string \<Rightarrow> string" where
  "replace_char a b s = map (\<lambda>c. if c = a then b else c) s"

text \<open>
  \<open>str.title()\<close> on ASCII text: a letter that follows a letter is lower-cased, any
  other letter is upper-cased; \<open>prev\<close> says whether the previous character was a letter.
\<close>

fun title_from :: "bool \<Rightarrow> string \<Rightarrow> string" where
  "title_from prev [] = []"
| "title_from prev (c # cs) =
     (if is_lower c \<or> is_upper c
      then (if prev then to_lower c else to_upper c) # title_from True cs
      else c # title_from False cs)"

definition title :: "string \<Rightarrow> string" where
  "title s = title_from False s"

text \<open>\<open>random.choice(xs)\<close> with the generator's draw \<open>i\<close>; it raises on an empty list.\<close>

definition random_choice :: "'a list \<Rightarrow> nat \<Rightarrow> py_error + 'a" where
  "random_choice xs i = (if xs = [] then Inl IndexError else Inr (xs ! (i mod length xs)))"

section \<open>Dates\<close>

text \<open>
  A \<open>datetime\<close> as the standard library holds it, to the second (the code formats
  every timestamp with \<open>%S\<close>, which drops the microseconds).
\<close>

record datetime =
  dt_year :: nat
  dt_month :: nat
  dt_day :: nat
  dt_hour :: nat
  dt_minute :: nat
  dt_second :: nat

definition is_leap :: "nat \<Rightarrow> bool" where
  "is_leap y = (if y mod 400 = 0 then True else if y mod 100 = 0 then False else y mod 4 = 0)"

definition days_in_month :: "nat \<Rightarrow> nat \<Rightarrow> nat" where
  "days_in_month y m =
     (if m = 2 then (if is_leap y then 29 else 28)
      else if m \<in> set [4, 6, 9, 11] then 30 else 31)"

text \<open>\<open>d.replace(day=n)\<close>: ValueError when the month has no such day.\<close>

definition replace_day :: "datetime \<Rightarrow> nat \<Rightarrow> py_error + datetime" where
  "replace_day d n =
     (if 1 \<le> n \<and> n \<le> days_in_month (dt_year d) (dt_month d)
      then Inr (d\<lparr>dt_day := n\<rparr>) else Inl ValueError)"

text \<open>\<open>d + timedelta(days=n)\<close>: OverflowError past year 9999.\<close>

definition next_day :: "datetime \<Rightarrow> datetime" where
  "next_day d =
     (if dt_day d < days_in_month (dt_year d) (dt_month d) then d\<lparr>dt_day := dt_day d + 1\<rparr>
      else if dt_month d < 12 then d\<lparr>dt_month := dt_month d + 1, dt_day := 1\<rparr>
      else d\<lparr>dt_year := dt_year d + 1, dt_month := 1, dt_day := 1\<rparr>)"

fun plus_days :: "datetime \<Rightarrow> nat \<Rightarrow> py_error + datetime" where
  "plus_days d 0 = Inr d"
| "plus_days d (Suc n) =
     (let d' = next_day d in if dt_year d' > 9999 then Inl OverflowError else plus_days d' n)"

definition days_before_year :: "nat \<Rightarrow> nat" where
  "days_before_year y = (y - 1) * 365 + (y - 1) div 4 - (y - 1) div 100 + (y - 1) div 400"

definition days_before_month :: "nat \<Rightarrow> nat \<Rightarrow> nat" where
  "days_before_month y m = sum_list (map (days_in_month y) [1..<m])"

definition toordinal :: "datetime \<Rightarrow> nat" where
  "toordinal d = days_before_year (dt_year d) + days_before_month (dt_year d) (dt_month d) + dt_day d"

definition weekday :: "datetime \<Rightarrow> nat" where
  "weekday d = (toordinal d + 6) mod 7"

definition day_names :: "string list" where
  "day_names = [''Monday'', ''Tuesday'', ''Wednesday'', ''Thursday'', ''Friday'', ''Saturday'',
                ''Sunday'']"

definition month_names :: "string list" where
  "month_names = [''January'', ''February'', ''March'', ''April'', ''May'', ''June'', ''July'',
                  ''August'', ''September'', ''October'', ''November'', ''December'']"

text \<open>\<open>d.strftime("%A, %B %d")\<close> in the default locale.\<close>

definition strftime_A_B_d :: "datetime \<Rightarrow> string" where
  "strftime_A_B_d d =
     day_names ! weekday d @ '', '' @ month_names ! (dt_month d - 1) @ '' '' @ pad2 (dt_day d)"

text \<open>\<open>(end - start).total_seconds()\<close>, a whole number since both are whole seconds.\<close>

definition seconds_of :: "datetime \<Rightarrow> int" where
  "seconds_of d =
     ((int (toordinal d) * 24 + int (dt_hour d)) * 60 + int (dt_minute d)) * 60 + int (dt_second d)"

definition total_seconds :: "datetime \<Rightarrow> datetime \<Rightarrow> int" where
  "total_seconds e s = seconds_of e - seconds_of s"

section \<open>CRMIntegration: the ledger of calls and appointments\<close>

text \<open>
  \<open>client_info\<close> is the caller's dict. Every value the code reads from it (id, name,
  phone, interest, location) is a string in every caller.
\<close>

type_synonym client_info = "(string \<times> string) list"

record call_note =
  note_timestamp :: datetime
  note_content :: string

text \<open>
  One entry of \<open>self.calls\<close>. The keys \<open>end_time\<close> and \<open>duration\<close> do not exist until
  \<open>log_call_end\<close> writes them: \<open>None\<close> is the missing key. Timestamps are stored by the
  code as \<open>%Y-%m-%d %H:%M:%S\<close> strings and parsed back with the same format; the model
  keeps the \<open>datetime\<close> they denote. The class of voice\_agent.py has no \<open>sentiment\<close>
  key; there the field stays \<open>None\<close>.
\<close>

record call_record =
  call_client :: client_info
  call_start_time :: datetime
  call_status :: string
  call_notes :: "call_note list"
  call_outcome :: "string option"
  call_sentiment :: "pyjson option"
  call_end_time :: "datetime option"
  call_duration :: "string option"

record appointment =
  apt_id :: string
  apt_client :: client_info
  apt_date :: string
  apt_time :: string
  apt_property_id :: "string option"
  apt_status :: string
  apt_created_at :: datetime

text \<open>\<open>self.calls\<close> is a dict: an association list in insertion order.\<close>

record crm =
  crm_type :: string
  calls :: "(string \<times> call_record) list"
  appointments :: "appointment list"

definition crm_init :: crm where
  "crm_init = \<lparr>crm_type = ''salesforce'', calls = [], appointments = []\<rparr>"

text \<open>
  \<open>x.time()\<close> where the name \<open>time\<close> is looked up in the scope of the call: the module
  \<open>time\<close> when nothing shadows it, and a local of that name otherwise. A \<open>str\<close> has no
  attribute \<open>time\<close>.
\<close>

datatype time_name = Time_module | Time_str string

fun call_time :: "time_name \<Rightarrow> int \<Rightarrow> py_error + int" where
  "call_time Time_module epoch = Inr epoch"
| "call_time (Time_str s) epoch = Inl AttributeError"

text \<open>
  \<open>log_call_start\<close>: \<open>epoch\<close> is \<open>int(time.time())\<close>, \<open>rnd\<close> is
  \<open>random.randint(1000, 9999)\<close>, \<open>now\<close> is \<open>datetime.now()\<close>. Here \<open>time\<close> is the module.
\<close>

definition log_call_start :: "crm \<Rightarrow> client_info \<Rightarrow> int \<Rightarrow> nat \<Rightarrow> datetime \<Rightarrow> (py_error + string) \<times> crm" where
  "log_call_start c client_info epoch rnd now =
     (case call_time Time_module epoch of
        Inl e \<Rightarrow> (Inl e, c)
      | Inr t \<Rightarrow>
          (let call_id = ''call_'' @ str_int t @ ''_'' @ str_nat rnd in
           (Inr call_id,
            c\<lparr>calls := AList.update call_id
                 \<lparr>call_client = client_info, call_start_time = now, call_status = ''in-progress'',
                  call_notes = [], call_outcome = None, call_sentiment = None,
                  call_end_time = None, call_duration = None\<rparr> (calls c)\<rparr>)))"

definition update_call_notes :: "crm \<Rightarrow> string \<Rightarrow> string \<Rightarrow> datetime \<Rightarrow> crm" where
  "update_call_notes c call_id text now =
     (if call_id \<in> fst ` set (calls c)
      then c\<lparr>calls := AList.map_entry call_id
             (\<lambda>r. r\<lparr>call_notes := call_notes r @ [\<lparr>note_timestamp = now, note_content = text\<rparr>]\<rparr>)
             (calls c)\<rparr>
      else c)"

definition update_client_sentiment :: "crm \<Rightarrow> string \<Rightarrow> pyjson \<Rightarrow> crm" where
  "update_client_sentiment c call_id sentiment =
     (if call_id \<in> fst ` set (calls c)
      then c\<lparr>calls := AList.map_entry call_id (\<lambda>r. r\<lparr>call_sentiment := Some sentiment\<rparr>) (calls c)\<rparr>
      else c)"

definition update_call_outcome :: "crm \<Rightarrow> string \<Rightarrow> string \<Rightarrow> crm" where
  "update_call_outcome c call_id outcome =
     (if call_id \<in> fst ` set (calls c)
      then c\<lparr>calls := AList.map_entry call_id (\<lambda>r. r\<lparr>call_outcome := Some outcome\<rparr>) (calls c)\<rparr>
      else c)"

text \<open>\<open>f"{int(duration // 60)}:{int(duration % 60):02d}"\<close>; Python's \<open>//\<close> and \<open>%\<close> floor.\<close>

definition format_duration :: "int \<Rightarrow> string" where
  "format_duration d = str_int (d div 60) @ '':'' @ pad2 (nat (d mod 60))"

definition log_call_end :: "crm \<Rightarrow> string \<Rightarrow> datetime \<Rightarrow> crm" where
  "log_call_end c call_id now =
     (if call_id \<in> fst ` set (calls c)
      then c\<lparr>calls := AList.map_entry call_id
             (\<lambda>r. r\<lparr>call_end_time := Some now, call_status := ''completed'',
                    call_duration := Some (format_duration (total_seconds now (call_start_time r)))\<rparr>)
             (calls c)\<rparr>
      else c)"

text \<open>
  \<open>schedule_appointment(self, client_info, date, time, property_id=None)\<close>. The
  parameter \<open>time\<close> shadows the module in the body, so \<open>time.time()\<close> in the first
  statement is looked up on the string that was passed.
\<close>

definition schedule_appointment :: "crm \<Rightarrow> client_info \<Rightarrow> string \<Rightarrow> string \<Rightarrow> string option \<Rightarrow> int \<Rightarrow> nat \<Rightarrow> datetime \<Rightarrow> (py_error + string) \<times> crm" where
  "schedule_appointment c client_info date time property_id epoch rnd now =
     (case call_time (Time_str time) epoch of
        Inl e \<Rightarrow> (Inl e, c)
      | Inr t \<Rightarrow>
          (let appointment_id = ''apt_'' @ str_int t @ ''_'' @ str_nat rnd in
           (Inr appointment_id,
            c\<lparr>appointments := appointments c @
                 [\<lparr>apt_id = appointment_id, apt_client = client_info, apt_date = date,
                   apt_time = time, apt_property_id = property_id, apt_status = ''scheduled'',
                   apt_created_at = now\<rparr>]\<rparr>)))"

text \<open>
  The read accessors. \<open>if client_id:\<close> is Python's truth test: \<open>None\<close> and the empty
  string are both false. The two branches return values of different shapes.
\<close>

definition truthy :: "string option \<Rightarrow> bool" where
  "truthy s = (case s of None \<Rightarrow> False | Some t \<Rightarrow> t \<noteq> [])"

datatype history_result =
    History_list "call_record list"
  | History_dict "(string \<times> call_record) list"

definition get_call_history :: "crm \<Rightarrow> string option \<Rightarrow> history_result" where
  "get_call_history c client_id =
     (if truthy client_id
      then History_list (map snd (filter (\<lambda>(call_id, call). map_of (call_client call) ''id'' = client_id)
                                   (calls c)))
      else History_dict (calls c))"

datatype appointments_result =
    Filtered_appointments "appointment list"
  | Internal_appointments "appointment list"

definition get_appointments :: "crm \<Rightarrow> string option \<Rightarrow> appointments_result" where
  "get_appointments c client_id =
     (if truthy client_id
      then Filtered_appointments (filter (\<lambda>apt. map_of (apt_client apt) ''id'' = client_id)
                                    (appointments c))
      else Internal_appointments (appointments c))"

text \<open>
  The mutators of the ledger as operations, so that every state the ledger can reach
  is \<open>run_ops ops\<close> for a list of them, from the empty ledger of \<open>__init__\<close>.
\<close>

datatype crm_op =
    Log_call_start client_info int nat datetime
  | Update_call_notes string string datetime
  | Update_client_sentiment string pyjson
  | Update_call_outcome string string
  | Log_call_end string datetime

fun apply_op :: "crm \<Rightarrow> crm_op \<Rightarrow> crm" where
  "apply_op c (Log_call_start client_info epoch rnd now) = snd (log_call_start c client_info epoch rnd now)"
| "apply_op c (Update_call_notes call_id text now) = update_call_notes c call_id text now"
| "apply_op c (Update_client_sentiment call_id sentiment) = update_client_sentiment c call_id sentiment"
| "apply_op c (Update_call_outcome call_id outcome) = update_call_outcome c call_id outcome"
| "apply_op c (Log_call_end call_id now) = log_call_end c call_id now"

definition run_ops :: "crm_op list \<Rightarrow> crm" where
  "run_ops ops = foldl apply_op crm_init ops"

text \<open>The two halves of the invariant the data model states for a call record.\<close>

definition end_fields_iff_completed :: "call_record \<Rightarrow> bool" where
  "end_fields_iff_completed r =
     (((call_end_time r \<noteq> None) = (call_status r = ''completed'')) \<and>
      ((call_duration r \<noteq> None) = (call_status r = ''completed'')))"

definition outcome_set_when_completed :: "call_record \<Rightarrow> bool" where
  "outcome_set_when_completed r =
     (if call_status r = ''completed'' then call_outcome r \<noteq> None else True)"

definition record_invariant :: "call_record \<Rightarrow> bool" where
  "record_invariant r = (end_fields_iff_completed r \<and> outcome_set_when_completed r)"

section \<open>openai\_integration.py: the generative backend\<close>

text \<open>
  One message of a chat request: its role and its content. The backend is
  \<open>openai.ChatCompletion.create\<close>, an external service: given the messages it returns
  the contents of \<open>response.choices\<close> in order, or raises. The sampling parameters of
  the three call sites are constants and are left out.
\<close>

type_synonym chat_message = "string \<times> string"

type_synonym backend = "chat_message list \<Rightarrow> py_error + string list"

text \<open>
  A property dict as \<open>_load_properties\<close> builds it: all seven keys are present and the
  price is an int, so \<open>property_info.get(key, default)\<close> never takes its default and the
  format spec \<open>:,\<close> applies. (A dict that lacks a key is outside this record.)
\<close>

record property_info =
  prop_id :: string
  prop_name :: string
  prop_type :: string
  prop_price :: int
  prop_address :: string
  prop_features :: string
  prop_description :: string

text \<open>\<open>response.choices[0].message.content\<close>.\<close>

definition first_choice_content :: "string list \<Rightarrow> py_error + string" where
  "first_choice_content choices = (case choices of [] \<Rightarrow> Inl IndexError | c # rest \<Rightarrow> Inr c)"

definition persona :: "string \<Rightarrow> string" where
  "persona agent_name =
     ''You are an experienced real estate agent named '' @
     agent_name @
     ''. \<newline>'' @
     ''        You are professional, knowledgeable, and friendly. Your goal is to help potential clients \<newline>'' @
     ''        find properties that match their needs and schedule viewings when appropriate.\<newline>'' @
     ''        \<newline>'' @
     ''        Keep your responses concise but informative. Focus on providing value to the potential client.\<newline>'' @
     ''        ''"

definition property_details :: "property_info \<Rightarrow> string" where
  "property_details p =
     ''\<newline>'' @
     ''            You are currently discussing this property:\<newline>'' @
     ''            - Name: '' @
     prop_name p @
     ''\<newline>            - Type: '' @
     prop_type p @
     ''\<newline>            - Price: $'' @
     format_commas (prop_price p) @
     ''\<newline>            - Address: '' @
     prop_address p @
     ''\<newline>            - Features: '' @
     prop_features p @
     ''\<newline>            - Description: '' @
     prop_description p @
     ''\<newline>            ''"

definition additional_context :: "string \<Rightarrow> string" where
  "additional_context ctx = ''\<newline>\<newline>Additional context: '' @ ctx"

text \<open>
  The messages \<open>generate_response\<close> sends. \<open>if property_info:\<close>, \<open>if agent_context:\<close>
  and \<open>if conversation_history:\<close> are truth tests: \<open>None\<close>, the empty string and the
  empty list add nothing.
\<close>

definition generate_response_messages :: "string \<Rightarrow> chat_message list \<Rightarrow> property_info option \<Rightarrow> string \<Rightarrow> string option \<Rightarrow> chat_message list" where
  "generate_response_messages client_message conversation_history property_info agent_name agent_context =
     (let system_message =
            persona agent_name @
            (case property_info of None \<Rightarrow> [] | Some p \<Rightarrow> property_details p) @
            (case agent_context of None \<Rightarrow> []
             | Some ctx \<Rightarrow> if ctx = [] then [] else additional_context ctx)
      in [(''system'', system_message)] @ conversation_history @ [(''user'', client_message)])"

definition apology :: string where
  "apology = ''I apologize, but I'm having trouble generating a response right now. Let me connect you with a human agent who can assist you further.''"

text \<open>
  \<open>generate_response\<close>: the backend call and the read of its first choice are inside
  the \<open>try\<close>; \<open>except Exception\<close> returns the apology.
\<close>

definition generate_response :: "backend \<Rightarrow> string \<Rightarrow> chat_message list \<Rightarrow> property_info option \<Rightarrow> string \<Rightarrow> string option \<Rightarrow> string" where
  "generate_response backend client_message conversation_history property_info agent_name agent_context =
     (case backend (generate_response_messages client_message conversation_history property_info
                      agent_name agent_context) of
        Inl e \<Rightarrow> apology
      | Inr choices \<Rightarrow>
          (case first_choice_content choices of Inl e \<Rightarrow> apology | Inr content \<Rightarrow> content))"

definition description_prompt :: "property_info \<Rightarrow> string" where
  "description_prompt p =
     ''\<newline>'' @
     ''        Create an engaging and persuasive description for this property:\<newline>'' @
     ''        \<newline>'' @
     ''        Property Type: '' @
     prop_type p @
     ''\<newline>        Price: $'' @
     format_commas (prop_price p) @
     ''\<newline>        Location: '' @
     prop_address p @
     ''\<newline>        Features: '' @
     prop_features p @
     ''\<newline>'' @
     ''        \<newline>'' @
     ''        The description should highlight the property's best features and appeal to potential buyers.\<newline>'' @
     ''        Keep it concise (100-150 words) but compelling.\<newline>'' @
     ''        ''"

definition description_unavailable :: string where
  "description_unavailable = ''Property description not available at this time.''"

definition description_messages :: "property_info \<Rightarrow> chat_message list" where
  "description_messages p =
     [(''system'', ''You are an expert real estate copywriter.''), (''user'', description_prompt p)]"

definition generate_property_description :: "backend \<Rightarrow> property_info \<Rightarrow> string" where
  "generate_property_description backend p =
     (case backend (description_messages p) of
        Inl e \<Rightarrow> description_unavailable
      | Inr choices \<Rightarrow>
          (case first_choice_content choices of
             Inl e \<Rightarrow> description_unavailable | Inr content \<Rightarrow> content))"

definition sentiment_prompt :: "string \<Rightarrow> string" where
  "sentiment_prompt client_message =
     ''\<newline>'' @
     ''        Analyze this message from a potential real estate client:\<newline>'' @
     ''        \<newline>'' @
     ''        \"'' @
     client_message @
     ''\"\<newline>'' @
     ''        \<newline>'' @
     ''        Provide a JSON response with the following fields:\<newline>'' @
     ''        - sentiment: (positive, neutral, or negative)\<newline>'' @
     ''        - interest_level: (high, medium, or low)\<newline>'' @
     ''        - key_concerns: (list of any concerns mentioned)\<newline>'' @
     ''        - preferences: (list of any preferences mentioned)\<newline>'' @
     ''        - next_action: (what the agent should focus on next)\<newline>'' @
     ''        ''"

definition default_sentiment :: pyjson where
  "default_sentiment =
     JDict [(''sentiment'', JStr ''neutral''), (''interest_level'', JStr ''medium''),
            (''key_concerns'', JList []), (''preferences'', JList []),
            (''next_action'', JStr ''ask_follow_up_questions'')]"

text \<open>
  \<open>analyze_client_sentiment\<close>. \<open>json_loads\<close> is the standard library's \<open>json.loads\<close>,
  a parameter of the model: it returns the parsed value or raises. The backend call, the
  read of the first choice and the parse are all inside the \<open>try\<close>.
\<close>

definition sentiment_messages :: "string \<Rightarrow> chat_message list" where
  "sentiment_messages client_message =
     [(''system'', ''You are an AI assistant that analyzes client messages for real estate agents.''),
      (''user'', sentiment_prompt client_message)]"

definition analyze_client_sentiment :: "backend \<Rightarrow> (string \<Rightarrow> py_error + pyjson) \<Rightarrow> string \<Rightarrow> pyjson" where
  "analyze_client_sentiment backend json_loads client_message =
     (case backend (sentiment_messages client_message) of
        Inl e \<Rightarrow> default_sentiment
      | Inr choices \<Rightarrow>
          (case first_choice_content choices of
             Inl e \<Rightarrow> default_sentiment
           | Inr content \<Rightarrow>
               (case json_loads content of Inl e \<Rightarrow> default_sentiment | Inr analysis \<Rightarrow> analysis)))"

text \<open>
  \<open>OpenAIIntegration.__init__\<close>: \<open>api_key or os.environ.get("OPENAI_API_KEY")\<close>, and a
  ValueError when neither is a non-empty string.
\<close>

record openai_integration =
  oa_api_key :: string

definition openai_init :: "string option \<Rightarrow> string option \<Rightarrow> py_error + openai_integration" where
  "openai_init api_key env_key =
     (case (if truthy api_key then api_key else env_key) of
        None \<Rightarrow> Inl ValueError
      | Some key \<Rightarrow> if key = [] then Inl ValueError else Inr \<lparr>oa_api_key = key\<rparr>)"

section \<open>voice\_agent\_with\_openai.py: the agent\<close>

text \<open>
  What one call reads from the clock and from the random generator, in the order of the
  reads: \<open>int(time.time())\<close>, \<open>random.randint(1000, 9999)\<close> and \<open>datetime.now()\<close> of
  \<open>log_call_start\<close>; the draw of the simulated client reply; the clock of the note; the
  draw of \<open>random.choices\<close> in percent; the clock of the candidate dates (read several
  times within one statement, taken as one instant); the four draws of the offered
  options; the clock and the draw of \<open>schedule_appointment\<close>; the clock of
  \<open>log_call_end\<close>. Output on stdout is not modelled.
\<close>

record env =
  env_epoch :: int
  env_call_rand :: nat
  env_now_start :: datetime
  env_reply :: nat
  env_now_note :: datetime
  env_outcome :: nat
  env_now_dates :: datetime
  env_date_1 :: nat
  env_time_1 :: nat
  env_date_2 :: nat
  env_time_2 :: nat
  env_apt_epoch :: int
  env_apt_rand :: nat
  env_now_apt :: datetime
  env_now_end :: datetime

text \<open>\<open>d[key]\<close> and \<open>d.get(key, default)\<close> on a dict of strings.\<close>

definition dict_item :: "(string \<times> string) list \<Rightarrow> string \<Rightarrow> py_error + string" where
  "dict_item d k = (case map_of d k of None \<Rightarrow> Inl KeyError | Some v \<Rightarrow> Inr v)"

definition dict_get :: "(string \<times> string) list \<Rightarrow> string \<Rightarrow> string \<Rightarrow> string" where
  "dict_get d k dflt = (case map_of d k of None \<Rightarrow> dflt | Some v \<Rightarrow> v)"

text \<open>\<open>sub in s\<close> on strings.\<close>

fun starts_with :: "string \<Rightarrow> string \<Rightarrow> bool" where
  "starts_with [] s = True"
| "starts_with (a # as) [] = False"
| "starts_with (a # as) (c # cs) = (a = c \<and> starts_with as cs)"

fun contains :: "string \<Rightarrow> string \<Rightarrow> bool" where
  "contains sub [] = (sub = [])"
| "contains sub (c # cs) = (if starts_with sub (c # cs) then True else contains sub cs)"

subsection \<open>The catalog and its enrichment\<close>

definition catalog :: "property_info list" where
  "catalog =
     [\<lparr>prop_id = ''prop001'', prop_name = ''Lakeside Villa'', prop_type = ''Residential'',
       prop_price = 1250000, prop_address = ''123 Lake Dr, Waterfront, CA'',
       prop_features = ''4 bed, 3 bath, 3,200 sq ft'',
       prop_description = ''Luxurious lakefront property with panoramic water views''\<rparr>,
      \<lparr>prop_id = ''prop002'', prop_name = ''Downtown Condo'', prop_type = ''Residential'',
       prop_price = 650000, prop_address = ''456 Main St #302, Downtown, CA'',
       prop_features = ''2 bed, 2 bath, 1,100 sq ft'',
       prop_description = ''Modern condo in the heart of downtown with city views''\<rparr>,
      \<lparr>prop_id = ''prop003'', prop_name = ''Commercial Office'', prop_type = ''Commercial'',
       prop_price = 2800000, prop_address = ''789 Business Ave, Commerce, CA'',
       prop_features = ''12,000 sq ft, 3 floors'',
       prop_description = ''Prime commercial space in the business district''\<rparr>,
      \<lparr>prop_id = ''prop004'', prop_name = ''Suburban House'', prop_type = ''Residential'',
       prop_price = 875000, prop_address = ''321 Oak St, Suburbia, CA'',
       prop_features = ''3 bed, 2.5 bath, 2,400 sq ft'',
       prop_description = ''Family home in a quiet suburban neighborhood''\<rparr>]"

text \<open>
  \<open>_load_properties\<close>. Its guard is \<open>hasattr(self, 'openai') and self.use_openai\<close>: the
  first argument is the attribute \<open>self.openai\<close>, \<open>None\<close> when the object has no such
  attribute yet; the second is \<open>self.use_openai\<close> in the same way, read only when the
  first exists. The loop assigns to each description what
  \<open>generate_property_description\<close> returns; that function catches every exception
  itself, so the loop's own \<open>except: pass\<close> has nothing to catch.
\<close>

definition load_properties :: "openai_integration option \<Rightarrow> bool option \<Rightarrow> backend \<Rightarrow> py_error + property_info list" where
  "load_properties self_openai self_use_openai backend =
     (case self_openai of
        None \<Rightarrow> Inr catalog
      | Some oa \<Rightarrow>
          (case self_use_openai of
             None \<Rightarrow> Inl AttributeError
           | Some use_openai \<Rightarrow>
               if use_openai
               then Inr (map (\<lambda>p. p\<lparr>prop_description := generate_property_description backend p\<rparr>)
                          catalog)
               else Inr catalog))"

text \<open>
  The agent object after \<open>__init__\<close>. The statements run in the order of the source:
  \<open>self.properties = self._load_properties()\<close> comes before the \<open>try\<close> that sets
  \<open>self.openai\<close> and \<open>self.use_openai\<close>, so the loader sees an object with neither.
\<close>

record agent =
  agent_voice_type :: string
  agent_properties :: "property_info list"
  agent_crm :: crm
  agent_openai :: "openai_integration option"
  agent_use_openai :: bool

definition agent_init :: "string \<Rightarrow> string option \<Rightarrow> string option \<Rightarrow> backend \<Rightarrow> py_error + agent" where
  "agent_init voice_type openai_api_key env_key backend =
     (case load_properties None None backend of
        Inl e \<Rightarrow> Inl e
      | Inr properties \<Rightarrow>
          (case openai_init openai_api_key env_key of
             Inr oa \<Rightarrow>
               Inr \<lparr>agent_voice_type = voice_type, agent_properties = properties,
                    agent_crm = crm_init, agent_openai = Some oa, agent_use_openai = True\<rparr>
           | Inl e \<Rightarrow>
               Inr \<lparr>agent_voice_type = voice_type, agent_properties = properties,
                    agent_crm = crm_init, agent_openai = None, agent_use_openai = False\<rparr>))"

subsection \<open>Scripts and canned replies\<close>

definition initial_contact_script :: "string \<Rightarrow> string \<Rightarrow> string \<Rightarrow> string \<Rightarrow> string" where
  "initial_contact_script client_name agent_name property_type location =
     ''\<newline>'' @ ''                Hello '' @ client_name @ '', this is '' @ agent_name @
     '' from Premier Real Estate.\<newline>'' @ ''                \<newline>'' @
     ''                I'm reaching out because I noticed you recently expressed interest in '' @
     property_type @ '' properties in the '' @ location @ '' area.\<newline>'' @
     ''                \<newline>'' @
     ''                We have several new listings that match your criteria. Would you be interested in hearing more about them or perhaps scheduling a viewing?\<newline>'' @
     ''                \<newline>'' @
     ''                [If yes] Great! Let me tell you about a few properties that might interest you...\<newline>'' @
     ''                \<newline>'' @
     ''                [If no] I understand. Would it be alright if I follow up with you in the future when we have new listings that match your preferences?\<newline>'' @
     ''            ''"

definition property_details_script :: "property_info \<Rightarrow> string" where
  "property_details_script p =
     ''\<newline>'' @ ''                The '' @ prop_name p @ '' is a beautiful '' @
     lower (prop_type p) @ '' located at '' @ prop_address p @ ''. \<newline>'' @
     ''                \<newline>'' @ ''                It features '' @ prop_features p @
     '' and is priced at $'' @ format_commas (prop_price p) @ ''.\<newline>'' @
     ''                \<newline>'' @ ''                '' @ prop_description p @
     ''\<newline>'' @ ''                \<newline>'' @
     ''                Would you be interested in scheduling a viewing of this property?\<newline>'' @
     ''            ''"

definition initial_context :: "string \<Rightarrow> string \<Rightarrow> string \<Rightarrow> string" where
  "initial_context client_name interest location =
     ''You are making an initial call to '' @ client_name @
     '' who has expressed interest in '' @ interest @ '' properties in the '' @ location @
     '' area.''"

definition property_context :: "property_info \<Rightarrow> string" where
  "property_context p =
     ''You are discussing the '' @ prop_name p @
     '' property with a potential client. This is a '' @ lower (prop_type p) @
     '' property priced at $'' @ format_commas (prop_price p) @ '', located at '' @
     prop_address p @ ''. It features '' @ prop_features p @ ''.''"

definition general_client_responses :: "string list" where
  "general_client_responses =
     [''Yes, I'd like to hear more about the properties you have.'',
      ''I'm not sure if I'm ready to view properties just yet.'',
      ''What kind of properties do you have in that area?'',
      ''I'm specifically looking for something with a garage.'']"

definition general_ai_responses :: "(string \<times> string) list" where
  "general_ai_responses =
     [(''Yes, I'd like to hear more about the properties you have.'',
       ''Great! We have several properties that might interest you. One of our most popular listings is a modern two-bedroom condo in the heart of downtown. It features an open floor plan, high ceilings, and a private balcony with city views. It's priced at $650,000.''),
      (''I'm not sure if I'm ready to view properties just yet.'',
       ''I completely understand. Would you like me to tell you a bit more about the properties we have available in the downtown area? This might help you decide if you'd like to schedule a viewing.''),
      (''What kind of properties do you have in that area?'',
       ''In the downtown area, we have a mix of modern condos, luxury apartments, and a few townhouses. Our most popular listing is a two-bedroom condo with an open floor plan and city views, priced at $650,000. We also have a three-bedroom townhouse with a rooftop terrace for $875,000.''),
      (''I'm specifically looking for something with a garage.'',
       ''We do have several properties with garage parking. Our downtown condo comes with one dedicated parking space in the secure underground garage. We also have a townhouse in the suburban area with a two-car garage, priced at $875,000. Would either of these interest you?'')]"

definition general_default_response :: string where
  "general_default_response = ''I understand. Let me find some properties that would match your needs.''"

definition property_client_responses :: "string list" where
  "property_client_responses =
     [''That sounds interesting. Is parking included?'',
      ''What are the HOA fees?'',
      ''Is it close to public transportation?'',
      ''I'd like to schedule a viewing.'']"

text \<open>The dict literal evaluates all four replies, whichever one is looked up.\<close>

definition property_ai_responses :: "property_info \<Rightarrow> (string \<times> string) list" where
  "property_ai_responses p =
     [(''That sounds interesting. Is parking included?'',
       ''Yes, the '' @ prop_name p @
       '' comes with dedicated parking. For this specific property, you get '' @
       (if prop_type p = ''Residential'' then ''one assigned space in the underground garage'' else ''multiple parking spaces in the private lot'') @
       ''.''),
      (''What are the HOA fees?'',
       ''The HOA fees for '' @ prop_name p @ '' are '' @
       (if prop_type p = ''Residential'' then ''$450 per month'' else ''not applicable as this is a commercial property with a different fee structure'') @
       ''. This includes '' @
       (if prop_type p = ''Residential'' then ''building maintenance, security, and access to amenities like the gym and pool'' else ''common area maintenance and security'') @
       ''.''),
      (''Is it close to public transportation?'',
       ''Yes, '' @ prop_name p @ '' is very conveniently located. There's a '' @
       (if contains ''Downtown'' (prop_address p) then ''subway station just two blocks away'' else ''bus stop within walking distance'') @
       '', and several bus lines run nearby.''),
      (''I'd like to schedule a viewing.'',
       ''That's great! I'd be happy to arrange that for you. We have availability tomorrow at 2:00 PM or Friday at 10:00 AM. Which would work better for your schedule?'')]"

definition property_default_response :: "property_info \<Rightarrow> string" where
  "property_default_response p =
     ''Thank you for your interest in '' @ prop_name p @
     ''. I'll make a note of your question and have our property specialist get back to you with more details.''"

definition conversation_note :: "string \<Rightarrow> string \<Rightarrow> string" where
  "conversation_note client_response ai_response =
     ''Client: '' @ client_response @ ''\<newline>'' @ ''Agent: '' @ ai_response"

subsection \<open>The outcome decision\<close>

definition outcomes :: "string list" where
  "outcomes = [''appointment_scheduled'', ''information_provided'', ''follow_up_required'',
               ''not_interested'']"

text \<open>
  \<open>random.choices(outcomes, weights=[0.25, 0.4, 0.2, 0.15], k=1)[0]\<close>: the position of
  the uniform draw, in percent, among the cumulative weights.
\<close>

definition weighted_index :: "nat \<Rightarrow> nat" where
  "weighted_index u =
     (if u mod 100 < 25 then 0 else if u mod 100 < 65 then 1 else if u mod 100 < 85 then 2 else 3)"

definition random_outcome :: "nat \<Rightarrow> string" where
  "random_outcome u = outcomes ! weighted_index u"

text \<open>
  The body of the \<open>try\<close> after the sentiment was stored, and its bare \<open>except\<close>:
  \<open>sentiment["interest_level"]\<close> is compared with \<open>"high"\<close>, then with \<open>"medium"\<close>, and
  the \<open>else\<close> takes everything else; a sentiment that cannot be subscripted so falls
  back to the random outcome.
\<close>

definition sentiment_outcome :: "pyjson \<Rightarrow> nat \<Rightarrow> string" where
  "sentiment_outcome sentiment u =
     (case getitem sentiment ''interest_level'' of
        Inl e \<Rightarrow> random_outcome u
      | Inr level \<Rightarrow>
          if level = JStr ''high'' then ''appointment_scheduled''
          else if level = JStr ''medium'' then ''information_provided''
          else ''follow_up_required'')"

subsection \<open>Appointment scheduling of a general inquiry\<close>

text \<open>
  The candidate dates of \<open>_handle_general_inquiry\<close>: today, and today with its day of
  the month replaced by \<open>day + 1\<close> and by \<open>day + 2\<close>.
\<close>

definition general_available_dates :: "datetime \<Rightarrow> py_error + string list" where
  "general_available_dates now =
     (case replace_day now (dt_day now + 1) of
        Inl e \<Rightarrow> Inl e
      | Inr d1 \<Rightarrow>
          (case replace_day now (dt_day now + 2) of
             Inl e \<Rightarrow> Inl e
           | Inr d2 \<Rightarrow> Inr [strftime_A_B_d now, strftime_A_B_d d1, strftime_A_B_d d2]))"

definition general_available_times :: "string list" where
  "general_available_times = [''10:00 AM'', ''1:00 PM'', ''3:30 PM'', ''5:00 PM'']"

text \<open>The two offered options: (date 1, time 1) and (date 2, time 2).\<close>

definition offered_options :: "string list \<Rightarrow> string list \<Rightarrow> env \<Rightarrow> py_error + ((string \<times> string) \<times> (string \<times> string))" where
  "offered_options available_dates available_times env =
     (case random_choice available_dates (env_date_1 env) of
        Inl e \<Rightarrow> Inl e
      | Inr date_option_1 \<Rightarrow>
     (case random_choice available_times (env_time_1 env) of
        Inl e \<Rightarrow> Inl e
      | Inr time_option_1 \<Rightarrow>
     (case random_choice (filter (\<lambda>d. d \<noteq> date_option_1) available_dates) (env_date_2 env) of
        Inl e \<Rightarrow> Inl e
      | Inr date_option_2 \<Rightarrow>
     (case random_choice (filter (\<lambda>t. t \<noteq> time_option_1) available_times) (env_time_2 env) of
        Inl e \<Rightarrow> Inl e
      | Inr time_option_2 \<Rightarrow>
          Inr ((date_option_1, time_option_1), (date_option_2, time_option_2))))))"

text \<open>
  The branch \<open>if outcome == "appointment_scheduled":\<close> of \<open>_handle_general_inquiry\<close>.
  The scheduling message (template or generated) is only printed.
\<close>

definition schedule_general :: "client_info \<Rightarrow> string \<Rightarrow> env \<Rightarrow> crm \<Rightarrow> (py_error + unit) \<times> crm" where
  "schedule_general client_info call_id env c =
     (case general_available_dates (env_now_dates env) of
        Inl e \<Rightarrow> (Inl e, c)
      | Inr available_dates \<Rightarrow>
     (case offered_options available_dates general_available_times env of
        Inl e \<Rightarrow> (Inl e, c)
      | Inr ((date_option_1, time_option_1), option_2) \<Rightarrow>
     (case schedule_appointment c client_info date_option_1 time_option_1 None
             (env_apt_epoch env) (env_apt_rand env) (env_now_apt env) of
        (Inl e, c') \<Rightarrow> (Inl e, c')
      | (Inr appointment_id, c') \<Rightarrow>
          (Inr (), update_call_outcome c' call_id ''Appointment scheduled''))))"

subsection \<open>The two flows and make\_call\<close>

definition handle_general_inquiry :: "bool \<Rightarrow> backend \<Rightarrow> (string \<Rightarrow> py_error + pyjson) \<Rightarrow> client_info \<Rightarrow> string \<Rightarrow> chat_message list \<Rightarrow> env \<Rightarrow> crm \<Rightarrow> (py_error + unit) \<times> crm" where
  "handle_general_inquiry use_openai backend json_loads client_info call_id conversation_history env c =
     (case dict_item client_info ''name'' of
        Inl e \<Rightarrow> (Inl e, c)
      | Inr client_name \<Rightarrow>
     (case random_choice general_client_responses (env_reply env) of
        Inl e \<Rightarrow> (Inl e, c)
      | Inr client_response \<Rightarrow>
          (let interest = dict_get client_info ''interest'' ''residential'';
               location = dict_get client_info ''location'' ''downtown'';
               script =
                 (if use_openai
                  then generate_response backend
                         ''Generate an initial greeting for a cold call to a potential real estate client.''
                         [] None ''Sarah'' (Some (initial_context client_name interest location))
                  else initial_contact_script client_name ''Sarah'' interest location);
               history_1 = conversation_history @ [(''assistant'', strip script)];
               history_2 = history_1 @ [(''user'', client_response)];
               ai_response =
                 (if use_openai
                  then generate_response backend client_response history_2 None ''Sarah'' None
                  else dict_get general_ai_responses client_response general_default_response);
               c1 = update_call_notes c call_id (conversation_note client_response ai_response)
                      (env_now_note env);
               (c2, outcome) =
                 (if use_openai
                  then (let sentiment = analyze_client_sentiment backend json_loads client_response
                        in (update_client_sentiment c1 call_id sentiment,
                            sentiment_outcome sentiment (env_outcome env)))
                  else (c1, random_outcome (env_outcome env)))
           in if outcome = ''appointment_scheduled''
              then schedule_general client_info call_id env c2
              else (Inr (), update_call_outcome c2 call_id
                              (title (replace_char CHR ''_'' CHR '' '' outcome))))))"

text \<open>
  The candidate dates of \<open>_handle_property_inquiry\<close> in this module: today and the two
  days after it, by \<open>timedelta\<close>.
\<close>

definition property_available_dates :: "datetime \<Rightarrow> py_error + string list" where
  "property_available_dates today =
     (case plus_days today 1 of
        Inl e \<Rightarrow> Inl e
      | Inr d1 \<Rightarrow>
          (case plus_days today 2 of
             Inl e \<Rightarrow> Inl e
           | Inr d2 \<Rightarrow> Inr [strftime_A_B_d today, strftime_A_B_d d1, strftime_A_B_d d2]))"

definition property_available_times :: "string list" where
  "property_available_times = [''10:00 AM'', ''2:00 PM'']"

definition handle_property_inquiry :: "bool \<Rightarrow> backend \<Rightarrow> client_info \<Rightarrow> property_info \<Rightarrow> string \<Rightarrow> chat_message list \<Rightarrow> env \<Rightarrow> crm \<Rightarrow> (py_error + unit) \<times> crm" where
  "handle_property_inquiry use_openai backend client_info p call_id conversation_history env c =
     (case random_choice property_client_responses (env_reply env) of
        Inl e \<Rightarrow> (Inl e, c)
      | Inr client_response \<Rightarrow>
          (let script =
                 (if use_openai
                  then generate_response backend ''Tell me about this property.'' [] (Some p) ''Sarah''
                         (Some (property_context p))
                  else property_details_script p);
               history_1 = conversation_history @ [(''assistant'', strip script)];
               history_2 = history_1 @ [(''user'', client_response)];
               ai_response =
                 (if use_openai
                  then generate_response backend client_response history_2 (Some p) ''Sarah'' None
                  else dict_get (property_ai_responses p) client_response
                         (property_default_response p));
               c1 = update_call_notes c call_id (conversation_note client_response ai_response)
                      (env_now_note env)
           in if client_response = ''I'd like to schedule a viewing.''
              then (case property_available_dates (env_now_dates env) of
                      Inl e \<Rightarrow> (Inl e, c1)
                    | Inr available_dates \<Rightarrow>
                        (case schedule_appointment c1 client_info (available_dates ! 0)
                                (property_available_times ! 1) (Some (prop_id p))
                                (env_apt_epoch env) (env_apt_rand env) (env_now_apt env) of
                           (Inl e, c') \<Rightarrow> (Inl e, c')
                         | (Inr appointment_id, c') \<Rightarrow>
                             (Inr (), update_call_outcome c' call_id ''Appointment scheduled'')))
              else (Inr (), update_call_outcome c1 call_id ''Information provided'')))"

text \<open>
  \<open>make_call\<close>. The first statement prints the client's name and phone, a KeyError when
  either is missing. \<open>if property_id:\<close> is a truth test; the catalog is searched for the
  first property of that id.
\<close>

definition make_call :: "bool \<Rightarrow> backend \<Rightarrow> (string \<Rightarrow> py_error + pyjson) \<Rightarrow> property_info list \<Rightarrow> client_info \<Rightarrow> string option \<Rightarrow> env \<Rightarrow> crm \<Rightarrow> (py_error + string) \<times> crm" where
  "make_call use_openai backend json_loads properties client_info property_id env c =
     (case dict_item client_info ''name'' of
        Inl e \<Rightarrow> (Inl e, c)
      | Inr client_name \<Rightarrow>
     (case dict_item client_info ''phone'' of
        Inl e \<Rightarrow> (Inl e, c)
      | Inr phone \<Rightarrow>
     (case log_call_start c client_info (env_epoch env) (env_call_rand env) (env_now_start env) of
        (Inl e, c0) \<Rightarrow> (Inl e, c0)
      | (Inr call_id, c0) \<Rightarrow>
          (let general = handle_general_inquiry use_openai backend json_loads client_info call_id []
                           env c0;
               handled =
                 (case property_id of
                    None \<Rightarrow> general
                  | Some pid \<Rightarrow>
                      if pid = [] then general
                      else (case find (\<lambda>p. prop_id p = pid) properties of
                              None \<Rightarrow> general
                            | Some p \<Rightarrow>
                                handle_property_inquiry use_openai backend client_info p call_id []
                                  env c0))
           in case handled of
                (Inl e, c1) \<Rightarrow> (Inl e, c1)
              | (Inr u, c1) \<Rightarrow> (Inr call_id, log_call_end c1 call_id (env_now_end env))))))"

section \<open>voice\_agent.py: the agent with templates only\<close>

text \<open>
  This module has its own copies of the catalog, the scripts, the canned replies and
  \<open>CRMIntegration\<close>, the same text as in the other module (its call records have no
  \<open>sentiment\<close> key). Its scripts are only printed. \<open>_handle_general_inquiry\<close> is the
  template branch of the other module's, with the random outcome.
\<close>

definition va_handle_general_inquiry :: "client_info \<Rightarrow> string \<Rightarrow> env \<Rightarrow> crm \<Rightarrow> (py_error + unit) \<times> crm" where
  "va_handle_general_inquiry client_info call_id env c =
     (case dict_item client_info ''name'' of
        Inl e \<Rightarrow> (Inl e, c)
      | Inr client_name \<Rightarrow>
     (case random_choice general_client_responses (env_reply env) of
        Inl e \<Rightarrow> (Inl e, c)
      | Inr client_response \<Rightarrow>
          (let ai_response = dict_get general_ai_responses client_response general_default_response;
               c1 = update_call_notes c call_id (conversation_note client_response ai_response)
                      (env_now_note env);
               outcome = random_outcome (env_outcome env)
           in if outcome = ''appointment_scheduled''
              then schedule_general client_info call_id env c1
              else (Inr (), update_call_outcome c1 call_id
                              (title (replace_char CHR ''_'' CHR '' '' outcome))))))"

text \<open>
  The candidate dates of this module's \<open>_handle_property_inquiry\<close>: today, and today
  with its day of the month replaced by \<open>day + 1\<close>.
\<close>

definition va_property_available_dates :: "datetime \<Rightarrow> py_error + string list" where
  "va_property_available_dates now =
     (case replace_day now (dt_day now + 1) of
        Inl e \<Rightarrow> Inl e
      | Inr d1 \<Rightarrow> Inr [strftime_A_B_d now, strftime_A_B_d d1])"

definition va_handle_property_inquiry :: "client_info \<Rightarrow> property_info \<Rightarrow> string \<Rightarrow> env \<Rightarrow> crm \<Rightarrow> (py_error + unit) \<times> crm" where
  "va_handle_property_inquiry client_info p call_id env c =
     (case random_choice property_client_responses (env_reply env) of
        Inl e \<Rightarrow> (Inl e, c)
      | Inr client_response \<Rightarrow>
          (let ai_response = dict_get (property_ai_responses p) client_response
                               (property_default_response p);
               c1 = update_call_notes c call_id (conversation_note client_response ai_response)
                      (env_now_note env)
           in if client_response = ''I'd like to schedule a viewing.''
              then (case va_property_available_dates (env_now_dates env) of
                      Inl e \<Rightarrow> (Inl e, c1)
                    | Inr available_dates \<Rightarrow>
                        (case schedule_appointment c1 client_info (available_dates ! 0)
                                (property_available_times ! 1) (Some (prop_id p))
                                (env_apt_epoch env) (env_apt_rand env) (env_now_apt env) of
                           (Inl e, c') \<Rightarrow> (Inl e, c')
                         | (Inr appointment_id, c') \<Rightarrow>
                             (Inr (), update_call_outcome c' call_id ''Appointment scheduled'')))
              else (Inr (), update_call_outcome c1 call_id ''Information provided'')))"

definition va_make_call :: "property_info list \<Rightarrow> client_info \<Rightarrow> string option \<Rightarrow> env \<Rightarrow> crm \<Rightarrow> (py_error + string) \<times> crm" where
  "va_make_call properties client_info property_id env c =
     (case dict_item client_info ''name'' of
        Inl e \<Rightarrow> (Inl e, c)
      | Inr client_name \<Rightarrow>
     (case dict_item client_info ''phone'' of
        Inl e \<Rightarrow> (Inl e, c)
      | Inr phone \<Rightarrow>
     (case log_call_start c client_info (env_epoch env) (env_call_rand env) (env_now_start env) of
        (Inl e, c0) \<Rightarrow> (Inl e, c0)
      | (Inr call_id, c0) \<Rightarrow>
          (let general = va_handle_general_inquiry client_info call_id env c0;
               handled =
                 (case property_id of
                    None \<Rightarrow> general
                  | Some pid \<Rightarrow>
                      if pid = [] then general
                      else (case find (\<lambda>p. prop_id p = pid) properties of
                              None \<Rightarrow> general
                            | Some p \<Rightarrow> va_handle_property_inquiry client_info p call_id env c0))
           in case handled of
                (Inl e, c1) \<Rightarrow> (Inl e, c1)
              | (Inr u, c1) \<Rightarrow> (Inr call_id, log_call_end c1 call_id (env_now_end env))))))"

section \<open>Facts about the helpers\<close>

lemma str_nat_1000: "str_nat 1000 = ''1000''"
  by (simp add: str_nat.simps digit_char_def)

lemma str_int_0: "str_int 0 = ''0''"
  by (simp add: str_int_def str_nat.simps digit_char_def)

lemma list_all_map_entry:
  "(\<And>r. P r \<Longrightarrow> P (f r)) \<Longrightarrow> list_all P (map snd xs) \<Longrightarrow>
   list_all P (map snd (AList.map_entry k f xs))"
  by (induction xs) auto

lemma list_all_update:
  "P v \<Longrightarrow> list_all P (map snd xs) \<Longrightarrow> list_all P (map snd (AList.update k v xs))"
  by (induction xs) auto

lemma map_entry_outcome:
  "(\<And>r. call_outcome (f r) = call_outcome r) \<Longrightarrow>
   map (call_outcome \<circ> snd) (AList.map_entry k f xs) = map (call_outcome \<circ> snd) xs"
  by (induction xs) auto

section \<open>The read accessors\<close>

text \<open>
  C10, as stated, fails: a client id that is supplied but empty takes the branch of the
  absent one, since the code tests the truth value of \<open>client_id\<close>. The result is then the
  internal dict, not a list.
\<close>

theorem C10_empty_client_id_counterexample:
  "\<not> (\<exists>xs. get_call_history crm_init (Some '''') = History_list xs)"
  by (simp add: get_call_history_def truthy_def)

text \<open>
  C10, amended: \<open>get_call_history\<close> returns the list of the call records whose client
  has that id when \<open>client_id\<close> is a non-empty string, and the ledger's whole internal
  id-to-record mapping when \<open>client_id\<close> is absent or empty; \<open>get_appointments\<close> returns
  the filtered list in the first case and the internal appointments list itself in the
  second.
\<close>

theorem C10_read_accessor_shapes:
  "get_call_history c None = History_dict (calls c) \<and>
   get_call_history c (Some []) = History_dict (calls c) \<and>
   get_call_history c (Some (x # xs)) =
     History_list (map snd (filter (\<lambda>(call_id, call). map_of (call_client call) ''id'' = Some (x # xs))
                              (calls c))) \<and>
   get_appointments c None = Internal_appointments (appointments c) \<and>
   get_appointments c (Some []) = Internal_appointments (appointments c) \<and>
   get_appointments c (Some (x # xs)) =
     Filtered_appointments (filter (\<lambda>apt. map_of (apt_client apt) ''id'' = Some (x # xs))
                              (appointments c))"
  by (simp add: get_call_history_def get_appointments_def truthy_def)


section \<open>The generative backend's fallbacks\<close>

text \<open>
  C4: whenever the text-generation backend call raises, \<open>generate_response\<close> returns
  exactly the fixed apology string. The function is total: it returns a string on every
  input and raises nothing.
\<close>

theorem C4_generate_response_apology:
  assumes "backend (generate_response_messages client_message conversation_history property_info
                      agent_name agent_context) = Inl e"
  shows "generate_response backend client_message conversation_history property_info agent_name
           agent_context =
         ''I apologize, but I'm having trouble generating a response right now. Let me connect you with a human agent who can assist you further.''"
  using assms by (simp add: generate_response_def apology_def)

theorem C4_generate_response_apology_witness:
  "generate_response (\<lambda>messages. Inl (BackendError ''connection refused''))
     ''Tell me about properties in downtown.'' [] None ''Sarah''
     (Some ''You are a real estate agent specializing in downtown properties.'') =
   ''I apologize, but I'm having trouble generating a response right now. Let me connect you with a human agent who can assist you further.''"
  using C4_generate_response_apology
    [where backend = "\<lambda>messages. Inl (BackendError ''connection refused'')"
       and e = "BackendError ''connection refused''"
       and client_message = "''Tell me about properties in downtown.''"
       and conversation_history = "[]" and property_info = None and agent_name = "''Sarah''"
       and agent_context = "Some ''You are a real estate agent specializing in downtown properties.''"]
  by simp

lemma generate_response_no_choices:
  "backend (generate_response_messages client_message conversation_history property_info
              agent_name agent_context) = Inr [] \<Longrightarrow>
   generate_response backend client_message conversation_history property_info agent_name
     agent_context = apology"
  by (simp add: generate_response_def first_choice_content_def)

text \<open>
  C5: whenever the sentiment backend call raises, or the text it returns does not parse
  as JSON, \<open>analyze_client_sentiment\<close> returns exactly the default assessment. The
  function is total: it raises nothing.
\<close>

theorem C5_sentiment_default:
  assumes "backend (sentiment_messages client_message) = Inl e \<or>
           (backend (sentiment_messages client_message) = Inr (content # rest) \<and>
            json_loads content = Inl e')"
  shows "analyze_client_sentiment backend json_loads client_message =
         JDict [(''sentiment'', JStr ''neutral''), (''interest_level'', JStr ''medium''),
                (''key_concerns'', JList []), (''preferences'', JList []),
                (''next_action'', JStr ''ask_follow_up_questions'')]"
  using assms
  by (auto simp: analyze_client_sentiment_def default_sentiment_def first_choice_content_def)

theorem C5_sentiment_default_witness:
  "analyze_client_sentiment (\<lambda>messages. Inl (BackendError ''rate limit''))
     (\<lambda>text. Inl JSONDecodeError) ''I am interested, but the price worries me.'' =
   JDict [(''sentiment'', JStr ''neutral''), (''interest_level'', JStr ''medium''),
          (''key_concerns'', JList []), (''preferences'', JList []),
          (''next_action'', JStr ''ask_follow_up_questions'')] \<and>
   analyze_client_sentiment (\<lambda>messages. Inr [''not json at all''])
     (\<lambda>text. Inl JSONDecodeError) ''I am interested, but the price worries me.'' =
   JDict [(''sentiment'', JStr ''neutral''), (''interest_level'', JStr ''medium''),
          (''key_concerns'', JList []), (''preferences'', JList []),
          (''next_action'', JStr ''ask_follow_up_questions'')]"
  using C5_sentiment_default
    [where backend = "\<lambda>messages. Inl (BackendError ''rate limit'')"
       and e = "BackendError ''rate limit''" and json_loads = "\<lambda>text. Inl JSONDecodeError"
       and client_message = "''I am interested, but the price worries me.''"]
    C5_sentiment_default
    [where backend = "\<lambda>messages. Inr [''not json at all'']" and content = "''not json at all''"
       and rest = "[]" and e' = JSONDecodeError and json_loads = "\<lambda>text. Inl JSONDecodeError"
       and client_message = "''I am interested, but the price worries me.''"]
  by simp

lemma sentiment_no_choices:
  "backend (sentiment_messages client_message) = Inr [] \<Longrightarrow>
   analyze_client_sentiment backend json_loads client_message = default_sentiment"
  by (simp add: analyze_client_sentiment_def first_choice_content_def)

section \<open>The outcome decided from a sentiment\<close>

lemma random_outcome_cases:
  "random_outcome u = ''appointment_scheduled'' \<or> random_outcome u = ''information_provided'' \<or>
   random_outcome u = ''follow_up_required'' \<or> random_outcome u = ''not_interested''"
  by (simp add: random_outcome_def weighted_index_def outcomes_def)

text \<open>
  C1: when the sentiment has an \<open>interest_level\<close>, the outcome is a function of that
  level alone: \<open>high\<close> gives \<open>appointment_scheduled\<close>, \<open>medium\<close> gives
  \<open>information_provided\<close>, \<open>low\<close> gives \<open>follow_up_required\<close>; the random draw plays
  no part, and the outcome is never \<open>not_interested\<close>.
\<close>

theorem C1_outcome_from_interest_level:
  assumes "getitem sentiment ''interest_level'' = Inr level"
  shows "(level = JStr ''high'' \<longrightarrow> sentiment_outcome sentiment u = ''appointment_scheduled'') \<and>
         (level = JStr ''medium'' \<longrightarrow> sentiment_outcome sentiment u = ''information_provided'') \<and>
         (level = JStr ''low'' \<longrightarrow> sentiment_outcome sentiment u = ''follow_up_required'') \<and>
         sentiment_outcome sentiment u \<noteq> ''not_interested'' \<and>
         sentiment_outcome sentiment u = sentiment_outcome sentiment u'"
  using assms by (simp add: sentiment_outcome_def)

theorem C1_outcome_from_interest_level_witness:
  "sentiment_outcome (JDict [(''sentiment'', JStr ''positive''), (''interest_level'', JStr ''high'')]) 90
     = ''appointment_scheduled'' \<and>
   sentiment_outcome (JDict [(''sentiment'', JStr ''neutral''), (''interest_level'', JStr ''medium'')]) 90
     = ''information_provided'' \<and>
   sentiment_outcome (JDict [(''sentiment'', JStr ''negative''), (''interest_level'', JStr ''low'')]) 90
     = ''follow_up_required'' \<and>
   sentiment_outcome (JDict [(''sentiment'', JStr ''negative''), (''interest_level'', JStr ''low'')]) 90
     \<noteq> ''not_interested''"
  using C1_outcome_from_interest_level
    [where sentiment = "JDict [(''sentiment'', JStr ''positive''), (''interest_level'', JStr ''high'')]"
       and level = "JStr ''high''" and u = 90 and u' = 90]
    C1_outcome_from_interest_level
    [where sentiment = "JDict [(''sentiment'', JStr ''neutral''), (''interest_level'', JStr ''medium'')]"
       and level = "JStr ''medium''" and u = 90 and u' = 90]
    C1_outcome_from_interest_level
    [where sentiment = "JDict [(''sentiment'', JStr ''negative''), (''interest_level'', JStr ''low'')]"
       and level = "JStr ''low''" and u = 90 and u' = 90]
  by simp

text \<open>
  C9: every \<open>interest_level\<close> other than \<open>high\<close> and \<open>medium\<close>, whatever JSON value
  it is, gives \<open>follow_up_required\<close>.
\<close>

theorem C9_other_levels_follow_up:
  assumes "getitem sentiment ''interest_level'' = Inr level"
    and "level \<noteq> JStr ''high''" and "level \<noteq> JStr ''medium''"
  shows "sentiment_outcome sentiment u = ''follow_up_required''"
  using assms by (simp add: sentiment_outcome_def)

theorem C9_other_levels_follow_up_witness:
  "sentiment_outcome (JDict [(''interest_level'', JStr ''very high'')]) 10 = ''follow_up_required'' \<and>
   sentiment_outcome (JDict [(''interest_level'', JInt 7)]) 10 = ''follow_up_required'' \<and>
   sentiment_outcome (JDict [(''interest_level'', JNull)]) 10 = ''follow_up_required''"
  using C9_other_levels_follow_up
    [where sentiment = "JDict [(''interest_level'', JStr ''very high'')]"
       and level = "JStr ''very high''" and u = 10]
    C9_other_levels_follow_up
    [where sentiment = "JDict [(''interest_level'', JInt 7)]" and level = "JInt 7" and u = 10]
    C9_other_levels_follow_up
    [where sentiment = "JDict [(''interest_level'', JNull)]" and level = JNull and u = 10]
  by simp

text \<open>
  Without an \<open>interest_level\<close> the bare \<open>except\<close> falls back to the random draw, which
  can give \<open>not_interested\<close>.
\<close>

lemma sentiment_without_level_is_random:
  "sentiment_outcome (JDict []) 90 = ''not_interested''"
  by (simp add: sentiment_outcome_def random_outcome_def weighted_index_def outcomes_def)

text \<open>What \<open>update_call_outcome\<close> receives for the three outcomes that are not an appointment.\<close>

lemma recorded_outcome_titles:
  "title (replace_char CHR ''_'' CHR '' '' ''information_provided'') = ''Information Provided''"
  "title (replace_char CHR ''_'' CHR '' '' ''follow_up_required'') = ''Follow Up Required''"
  "title (replace_char CHR ''_'' CHR '' '' ''not_interested'') = ''Not Interested''"
  by code_simp+


section \<open>Scheduling an appointment\<close>

text \<open>
  In \<open>schedule_appointment\<close> the parameter \<open>time\<close> hides the module \<open>time\<close>, so its
  first statement raises on every call, before anything is written.
\<close>

lemma schedule_appointment_raises:
  "schedule_appointment c client_info date time property_id epoch rnd now = (Inl AttributeError, c)"
  by (simp add: schedule_appointment_def)

lemma schedule_reply_drawn:
  "random_choice property_client_responses 3 = Inr ''I'd like to schedule a viewing.''"
  by (simp add: random_choice_def property_client_responses_def)

text \<open>A draw selects the reply at its position modulo four: 5 is the second reply.\<close>

lemma hoa_reply_drawn:
  "random_choice property_client_responses 5 = Inr ''What are the HOA fees?''"
  by (simp add: random_choice_def property_client_responses_def)

lemma find_prop002:
  "find (\<lambda>p. prop_id p = ''prop002'') catalog =
   Some \<lparr>prop_id = ''prop002'', prop_name = ''Downtown Condo'', prop_type = ''Residential'',
         prop_price = 650000, prop_address = ''456 Main St #302, Downtown, CA'',
         prop_features = ''2 bed, 2 bath, 1,100 sq ft'',
         prop_description = ''Modern condo in the heart of downtown with city views''\<rparr>"
  by (simp add: catalog_def)

lemma va_property_dates_mid_month:
  "va_property_available_dates
     \<lparr>dt_year = 2024, dt_month = 6, dt_day = 15, dt_hour = 9, dt_minute = 0, dt_second = 0\<rparr> =
   Inr [strftime_A_B_d
          \<lparr>dt_year = 2024, dt_month = 6, dt_day = 15, dt_hour = 9, dt_minute = 0, dt_second = 0\<rparr>,
        strftime_A_B_d
          \<lparr>dt_year = 2024, dt_month = 6, dt_day = 16, dt_hour = 9, dt_minute = 0, dt_second = 0\<rparr>]"
  by (simp add: va_property_available_dates_def replace_day_def days_in_month_def)

lemma property_dates_mid_month:
  "property_available_dates
     \<lparr>dt_year = 2024, dt_month = 6, dt_day = 15, dt_hour = 9, dt_minute = 0, dt_second = 0\<rparr> =
   Inr [strftime_A_B_d
          \<lparr>dt_year = 2024, dt_month = 6, dt_day = 15, dt_hour = 9, dt_minute = 0, dt_second = 0\<rparr>,
        strftime_A_B_d
          \<lparr>dt_year = 2024, dt_month = 6, dt_day = 16, dt_hour = 9, dt_minute = 0, dt_second = 0\<rparr>,
        strftime_A_B_d
          \<lparr>dt_year = 2024, dt_month = 6, dt_day = 17, dt_hour = 9, dt_minute = 0, dt_second = 0\<rparr>]"
  by (simp add: property_available_dates_def numeral_2_eq_2 next_day_def days_in_month_def Let_def)

lemma update_call_notes_appointments:
  "appointments (update_call_notes c call_id text now) = appointments c"
  by (simp add: update_call_notes_def)

lemma update_call_notes_outcomes:
  "map (call_outcome \<circ> snd) (calls (update_call_notes c call_id text now)) =
   map (call_outcome \<circ> snd) (calls c)"
  by (simp add: update_call_notes_def map_entry_outcome)

text \<open>
  C2, evaluated on the code: in the property flow of either module, with the client
  reply "I'd like to schedule a viewing." (the fourth of the four, draw 3), the call
  to \<open>schedule_appointment\<close> raises AttributeError. No appointment is added to the
  ledger and no outcome is written: the ledger only gains the note of the conversation.
\<close>

theorem C2_schedule_viewing_raises:
  "fst (va_handle_property_inquiry client_info p call_id
          (env\<lparr>env_reply := 3,
               env_now_dates := \<lparr>dt_year = 2024, dt_month = 6, dt_day = 15, dt_hour = 9,
                                 dt_minute = 0, dt_second = 0\<rparr>\<rparr>) c) = Inl AttributeError \<and>
   appointments (snd (va_handle_property_inquiry client_info p call_id
          (env\<lparr>env_reply := 3,
               env_now_dates := \<lparr>dt_year = 2024, dt_month = 6, dt_day = 15, dt_hour = 9,
                                 dt_minute = 0, dt_second = 0\<rparr>\<rparr>) c)) = appointments c \<and>
   map (call_outcome \<circ> snd) (calls (snd (va_handle_property_inquiry client_info p call_id
          (env\<lparr>env_reply := 3,
               env_now_dates := \<lparr>dt_year = 2024, dt_month = 6, dt_day = 15, dt_hour = 9,
                                 dt_minute = 0, dt_second = 0\<rparr>\<rparr>) c))) =
     map (call_outcome \<circ> snd) (calls c) \<and>
   fst (handle_property_inquiry use_openai backend client_info p call_id history
          (env\<lparr>env_reply := 3,
               env_now_dates := \<lparr>dt_year = 2024, dt_month = 6, dt_day = 15, dt_hour = 9,
                                 dt_minute = 0, dt_second = 0\<rparr>\<rparr>) c) = Inl AttributeError \<and>
   appointments (snd (handle_property_inquiry use_openai backend client_info p call_id history
          (env\<lparr>env_reply := 3,
               env_now_dates := \<lparr>dt_year = 2024, dt_month = 6, dt_day = 15, dt_hour = 9,
                                 dt_minute = 0, dt_second = 0\<rparr>\<rparr>) c)) = appointments c \<and>
   map (call_outcome \<circ> snd) (calls (snd (handle_property_inquiry use_openai backend client_info
          p call_id history
          (env\<lparr>env_reply := 3,
               env_now_dates := \<lparr>dt_year = 2024, dt_month = 6, dt_day = 15, dt_hour = 9,
                                 dt_minute = 0, dt_second = 0\<rparr>\<rparr>) c))) =
     map (call_outcome \<circ> snd) (calls c)"
  by (simp add: va_handle_property_inquiry_def handle_property_inquiry_def schedule_reply_drawn
      Let_def va_property_dates_mid_month property_dates_mid_month schedule_appointment_raises
      update_call_notes_appointments update_call_notes_outcomes)

section \<open>make\_call\<close>

text \<open>
  C3, evaluated on the code: \<open>make_call\<close> of voice\_agent.py for a client with a name
  and a phone, the property id \<open>prop002\<close> and the client reply "I'd like to schedule
  a viewing." raises AttributeError out of \<open>schedule_appointment\<close>. \<open>log_call_end\<close> is
  never reached: the call record stays in progress, with no end time, no duration and
  no outcome.
\<close>

theorem C3_make_call_raises:
  "va_make_call catalog [(''name'', ''Jane Doe''), (''phone'', ''(555) 987-6543'')]
     (Some ''prop002'')
     (env\<lparr>env_reply := 3,
          env_now_dates := \<lparr>dt_year = 2024, dt_month = 6, dt_day = 15, dt_hour = 9,
                            dt_minute = 0, dt_second = 0\<rparr>\<rparr>) crm_init =
   (Inl AttributeError,
    \<lparr>crm_type = ''salesforce'',
     calls = [(''call_'' @ str_int (env_epoch env) @ ''_'' @ str_nat (env_call_rand env),
       \<lparr>call_client = [(''name'', ''Jane Doe''), (''phone'', ''(555) 987-6543'')],
        call_start_time = env_now_start env, call_status = ''in-progress'',
        call_notes = [\<lparr>note_timestamp = env_now_note env,
          note_content = ''Client: I'd like to schedule a viewing.\<newline>Agent: That's great! I'd be happy to arrange that for you. We have availability tomorrow at 2:00 PM or Friday at 10:00 AM. Which would work better for your schedule?''\<rparr>],
        call_outcome = None, call_sentiment = None, call_end_time = None,
        call_duration = None\<rparr>)],
     appointments = []\<rparr>)"
  by (simp add: va_make_call_def dict_item_def find_prop002 Let_def
      va_handle_property_inquiry_def schedule_reply_drawn property_ai_responses_def dict_get_def
      va_property_dates_mid_month schedule_appointment_raises conversation_note_def
      log_call_start_def update_call_notes_def crm_init_def)

text \<open>
  The same call with the reply "What are the HOA fees?" returns the call id and closes
  the record: the flows that do not schedule an appointment do reach \<open>log_call_end\<close>.
\<close>

lemma va_make_call_information_provided:
  "va_make_call catalog [(''name'', ''Jane Doe''), (''phone'', ''(555) 987-6543'')]
     (Some ''prop002'') (env\<lparr>env_reply := 5\<rparr>) crm_init =
   (Inr (''call_'' @ str_int (env_epoch env) @ ''_'' @ str_nat (env_call_rand env)),
    \<lparr>crm_type = ''salesforce'',
     calls = [(''call_'' @ str_int (env_epoch env) @ ''_'' @ str_nat (env_call_rand env),
       \<lparr>call_client = [(''name'', ''Jane Doe''), (''phone'', ''(555) 987-6543'')],
        call_start_time = env_now_start env, call_status = ''completed'',
        call_notes = [\<lparr>note_timestamp = env_now_note env,
          note_content = ''Client: What are the HOA fees?\<newline>Agent: The HOA fees for Downtown Condo are $450 per month. This includes building maintenance, security, and access to amenities like the gym and pool.''\<rparr>],
        call_outcome = Some ''Information provided'', call_sentiment = None,
        call_end_time = Some (env_now_end env),
        call_duration =
          Some (format_duration (total_seconds (env_now_end env) (env_now_start env)))\<rparr>)],
     appointments = []\<rparr>)"
  by (simp add: va_make_call_def dict_item_def find_prop002 Let_def
      va_handle_property_inquiry_def hoa_reply_drawn property_ai_responses_def dict_get_def
      conversation_note_def log_call_start_def update_call_notes_def update_call_outcome_def
      log_call_end_def crm_init_def)

section \<open>Candidate dates\<close>

lemma days_before_august: "days_before_month 2024 8 = 213"
  by (simp add: days_before_month_def days_in_month_def is_leap_def upt_rec)

lemma general_dates_mid_month:
  "general_available_dates
     \<lparr>dt_year = 2024, dt_month = 8, dt_day = 15, dt_hour = 9, dt_minute = 0, dt_second = 0\<rparr> =
   Inr [''Thursday, August 15'', ''Friday, August 16'', ''Saturday, August 17'']"
  by (simp add: general_available_dates_def replace_day_def days_in_month_def strftime_A_B_d_def
      weekday_def toordinal_def days_before_year_def days_before_august is_leap_def
      day_names_def month_names_def pad2_def str_nat.simps digit_char_def)

lemma random_choice_member: "random_choice xs i = Inr x \<Longrightarrow> x \<in> set xs"
  by (auto simp: random_choice_def split: if_splits)

lemma offered_options_distinct:
  assumes "offered_options available_dates available_times env = Inr ((d1, t1), (d2, t2))"
  shows "d1 \<noteq> d2 \<and> t1 \<noteq> t2"
proof -
  from assms have "d2 \<in> set (filter (\<lambda>d. d \<noteq> d1) available_dates)"
    and "t2 \<in> set (filter (\<lambda>t. t \<noteq> t1) available_times)"
    by (auto simp: offered_options_def split: sum.splits dest: random_choice_member)
  then show ?thesis by auto
qed

text \<open>
  C7, evaluated on the code: on the last day of a month, and on the day before it, the
  candidate dates of a general inquiry are not computed at all. \<open>replace(day=day + 1)\<close>
  (or \<open>day + 2\<close>) names a day the month does not have and raises ValueError, which
  leaves the scheduling branch before any option is offered.
\<close>

theorem C7_month_end_raises:
  "general_available_dates
     \<lparr>dt_year = 2024, dt_month = 8, dt_day = 31, dt_hour = 9, dt_minute = 0, dt_second = 0\<rparr> =
     Inl ValueError \<and>
   general_available_dates
     \<lparr>dt_year = 2024, dt_month = 8, dt_day = 30, dt_hour = 9, dt_minute = 0, dt_second = 0\<rparr> =
     Inl ValueError \<and>
   schedule_general client_info call_id
     (env\<lparr>env_now_dates := \<lparr>dt_year = 2024, dt_month = 8, dt_day = 31, dt_hour = 9,
                              dt_minute = 0, dt_second = 0\<rparr>\<rparr>) c = (Inl ValueError, c)"
  by (simp add: schedule_general_def general_available_dates_def replace_day_def
      days_in_month_def)

section \<open>The enrichment of the catalog\<close>

text \<open>
  C6, evaluated on the code: constructing the agent with an API key leaves every
  description of the catalog as it was, whatever the backend would generate, because
  the catalog is loaded before the object has its \<open>openai\<close> attribute. And when the
  loader does run with the backend enabled and the backend fails, every description is
  replaced by the fallback text of \<open>generate_property_description\<close>, not kept.
\<close>

theorem C6_enrichment_not_a_round_trip:
  "agent_init voice_type (Some (k # ks)) env_key backend =
     Inr \<lparr>agent_voice_type = voice_type, agent_properties = catalog, agent_crm = crm_init,
          agent_openai = Some \<lparr>oa_api_key = k # ks\<rparr>, agent_use_openai = True\<rparr> \<and>
   load_properties (Some oa) (Some True) (\<lambda>messages. Inl e) =
     Inr (map (\<lambda>p. p\<lparr>prop_description := ''Property description not available at this time.''\<rparr>)
            catalog)"
  by (simp add: agent_init_def load_properties_def openai_init_def truthy_def
      generate_property_description_def description_unavailable_def)

lemma load_properties_generated:
  "load_properties (Some oa) (Some True) (\<lambda>messages. Inr [text]) =
     Inr (map (\<lambda>p. p\<lparr>prop_description := text\<rparr>) catalog)"
  by (simp add: load_properties_def generate_property_description_def first_choice_content_def)


section \<open>The ledger's record lifecycle\<close>

lemma apply_op_end_fields:
  assumes "list_all end_fields_iff_completed (map snd (calls c))"
  shows "list_all end_fields_iff_completed (map snd (calls (apply_op c op)))"
proof (cases op)
  case (Log_call_start ci e r n)
  with assms show ?thesis
    by (simp add: log_call_start_def Let_def list_all_update end_fields_iff_completed_def)
next
  case (Update_call_notes i t n)
  with assms show ?thesis
    by (auto simp: update_call_notes_def end_fields_iff_completed_def intro!: list_all_map_entry)
next
  case (Update_client_sentiment i s)
  with assms show ?thesis
    by (auto simp: update_client_sentiment_def end_fields_iff_completed_def
        intro!: list_all_map_entry)
next
  case (Update_call_outcome i s)
  with assms show ?thesis
    by (auto simp: update_call_outcome_def end_fields_iff_completed_def intro!: list_all_map_entry)
next
  case (Log_call_end i n)
  with assms show ?thesis
    by (auto simp: log_call_end_def end_fields_iff_completed_def intro!: list_all_map_entry)
qed

lemma foldl_end_fields:
  "list_all end_fields_iff_completed (map snd (calls c)) \<Longrightarrow>
   list_all end_fields_iff_completed (map snd (calls (foldl apply_op c ops)))"
  by (induction ops arbitrary: c) (simp_all add: apply_op_end_fields)

lemma map_entry_twice:
  "AList.map_entry k f (AList.map_entry k g xs) = AList.map_entry k (\<lambda>r. f (g r)) xs"
  by (induction xs) auto

lemma keys_map_entry: "fst ` set (AList.map_entry k f xs) = fst ` set xs"
  by (induction xs) auto

lemma notes_keep_invariant:
  "list_all record_invariant (map snd (calls c)) \<Longrightarrow>
   list_all record_invariant (map snd (calls (update_call_notes c call_id body now)))"
  by (auto simp: update_call_notes_def record_invariant_def end_fields_iff_completed_def
      outcome_set_when_completed_def intro!: list_all_map_entry)

lemma sentiment_keeps_invariant:
  "list_all record_invariant (map snd (calls c)) \<Longrightarrow>
   list_all record_invariant (map snd (calls (update_client_sentiment c call_id s)))"
  by (auto simp: update_client_sentiment_def record_invariant_def end_fields_iff_completed_def
      outcome_set_when_completed_def intro!: list_all_map_entry)

lemma start_keeps_invariant:
  "list_all record_invariant (map snd (calls c)) \<Longrightarrow>
   list_all record_invariant (map snd (calls (snd (log_call_start c client_info epoch rnd now))))"
  by (simp add: log_call_start_def Let_def list_all_update record_invariant_def
      end_fields_iff_completed_def outcome_set_when_completed_def)

text \<open>Closing a call right after its outcome was written keeps the whole invariant.\<close>

lemma outcome_then_end_keeps_invariant:
  assumes "list_all record_invariant (map snd (calls c))"
  shows "list_all record_invariant
           (map snd (calls (log_call_end (update_call_outcome c call_id outcome) call_id now)))"
proof (cases "call_id \<in> fst ` set (calls c)")
  case True
  then show ?thesis using assms
    by (auto simp: log_call_end_def update_call_outcome_def keys_map_entry map_entry_twice
        record_invariant_def end_fields_iff_completed_def outcome_set_when_completed_def
        intro!: list_all_map_entry)
next
  case False
  then show ?thesis using assms
    by (simp add: log_call_end_def update_call_outcome_def)
qed

subsection \<open>What a flow leaves behind\<close>

text \<open>
  Each flow either raises, on a ledger that still satisfies the invariant, or returns
  with the outcome as its last write, on such a ledger. The scheduling branch of a
  general inquiry always raises.
\<close>

lemma schedule_general_raises:
  "\<exists>e. schedule_general client_info call_id env c = (Inl e, c)"
  by (simp add: schedule_general_def schedule_appointment_raises split: sum.splits prod.splits)

lemma general_steps:
  assumes inv: "list_all record_invariant (map snd (calls c))"
    and a: "handle_general_inquiry use_openai backend json_loads client_info call_id history env c
            = (r, c')"
  shows "\<exists>c2. list_all record_invariant (map snd (calls c2)) \<and>
           ((\<exists>e. r = Inl e \<and> c' = c2) \<or>
            (\<exists>outcome. r = Inr () \<and> c' = update_call_outcome c2 call_id outcome))"
proof (cases "dict_item client_info ''name''")
  case (Inl e)
  with a inv show ?thesis by (auto simp: handle_general_inquiry_def)
next
  case name: (Inr n)
  show ?thesis
  proof (cases "random_choice general_client_responses (env_reply env)")
    case (Inl e)
    with a name inv show ?thesis by (auto simp: handle_general_inquiry_def)
  next
    case reply: (Inr reply)
    obtain c2 outcome where step:
      "handle_general_inquiry use_openai backend json_loads client_info call_id history env c =
       (if outcome = ''appointment_scheduled'' then schedule_general client_info call_id env c2
        else (Inr (), update_call_outcome c2 call_id
                        (title (replace_char CHR ''_'' CHR '' '' outcome))))"
      and inv2: "list_all record_invariant (map snd (calls c2))"
    proof (cases use_openai)
      case True
      show ?thesis
        by (rule that[of "sentiment_outcome (analyze_client_sentiment backend json_loads reply)
                            (env_outcome env)"
              "update_client_sentiment (update_call_notes c call_id
                 (conversation_note reply (generate_response backend reply
                    (history @ [(''assistant'', strip (generate_response backend
                        ''Generate an initial greeting for a cold call to a potential real estate client.''
                        [] None ''Sarah'' (Some (initial_context n
                           (dict_get client_info ''interest'' ''residential'')
                           (dict_get client_info ''location'' ''downtown''))))),
                       (''user'', reply)]) None ''Sarah'' None)) (env_now_note env))
                 call_id (analyze_client_sentiment backend json_loads reply)"])
          (simp_all add: handle_general_inquiry_def name reply True Let_def
            sentiment_keeps_invariant notes_keep_invariant inv)
    next
      case False
      show ?thesis
        by (rule that[of "random_outcome (env_outcome env)"
              "update_call_notes c call_id (conversation_note reply
                 (dict_get general_ai_responses reply general_default_response)) (env_now_note env)"])
          (simp_all add: handle_general_inquiry_def name reply False Let_def
            notes_keep_invariant inv)
    qed
    show ?thesis
    proof (cases "outcome = ''appointment_scheduled''")
      case True
      obtain e where "schedule_general client_info call_id env c2 = (Inl e, c2)"
        using schedule_general_raises by blast
      with a step True inv2 show ?thesis by auto
    next
      case False
      with a step inv2 show ?thesis by auto
    qed
  qed
qed

lemma property_steps:
  assumes inv: "list_all record_invariant (map snd (calls c))"
    and a: "handle_property_inquiry use_openai backend client_info p call_id history env c = (r, c')"
  shows "\<exists>c2. list_all record_invariant (map snd (calls c2)) \<and>
           ((\<exists>e. r = Inl e \<and> c' = c2) \<or>
            (\<exists>outcome. r = Inr () \<and> c' = update_call_outcome c2 call_id outcome))"
proof (cases "random_choice property_client_responses (env_reply env)")
  case (Inl e)
  with a inv show ?thesis by (auto simp: handle_property_inquiry_def)
next
  case reply: (Inr reply)
  define script where "script =
      (if use_openai
       then generate_response backend ''Tell me about this property.'' [] (Some p) ''Sarah''
              (Some (property_context p))
       else property_details_script p)"
  define ai_response where "ai_response =
      (if use_openai
       then generate_response backend reply
              ((history @ [(''assistant'', strip script)]) @ [(''user'', reply)]) (Some p) ''Sarah'' None
       else dict_get (property_ai_responses p) reply (property_default_response p))"
  define c1 where
    "c1 = update_call_notes c call_id (conversation_note reply ai_response) (env_now_note env)"
  have inv1: "list_all record_invariant (map snd (calls c1))"
    unfolding c1_def by (rule notes_keep_invariant[OF inv])
  show ?thesis
  proof (cases "reply = ''I'd like to schedule a viewing.''")
    case True
    with a reply have "\<exists>e. r = Inl e \<and> c' = c1"
      by (auto simp: handle_property_inquiry_def Let_def schedule_appointment_raises
          c1_def ai_response_def script_def split: sum.splits)
    with inv1 show ?thesis by blast
  next
    case False
    with a reply have "r = Inr () \<and> c' = update_call_outcome c1 call_id ''Information provided''"
      by (auto simp: handle_property_inquiry_def Let_def c1_def ai_response_def script_def)
    with inv1 show ?thesis by blast
  qed
qed

lemma va_general_steps:
  assumes inv: "list_all record_invariant (map snd (calls c))"
    and a: "va_handle_general_inquiry client_info call_id env c = (r, c')"
  shows "\<exists>c2. list_all record_invariant (map snd (calls c2)) \<and>
           ((\<exists>e. r = Inl e \<and> c' = c2) \<or>
            (\<exists>outcome. r = Inr () \<and> c' = update_call_outcome c2 call_id outcome))"
proof (cases "dict_item client_info ''name''")
  case (Inl e)
  with a inv show ?thesis by (auto simp: va_handle_general_inquiry_def)
next
  case name: (Inr n)
  show ?thesis
  proof (cases "random_choice general_client_responses (env_reply env)")
    case (Inl e)
    with a name inv show ?thesis by (auto simp: va_handle_general_inquiry_def)
  next
    case reply: (Inr reply)
    define c1 where "c1 = update_call_notes c call_id
        (conversation_note reply (dict_get general_ai_responses reply general_default_response))
        (env_now_note env)"
    have inv1: "list_all record_invariant (map snd (calls c1))"
      unfolding c1_def by (rule notes_keep_invariant[OF inv])
    show ?thesis
    proof (cases "random_outcome (env_outcome env) = ''appointment_scheduled''")
      case True
      obtain e where "schedule_general client_info call_id env c1 = (Inl e, c1)"
        using schedule_general_raises by blast
      with a name reply True have "r = Inl e \<and> c' = c1"
        by (simp add: va_handle_general_inquiry_def Let_def c1_def)
      with inv1 show ?thesis by blast
    next
      case False
      with a name reply have "r = Inr () \<and> c' = update_call_outcome c1 call_id
          (title (replace_char CHR ''_'' CHR '' '' (random_outcome (env_outcome env))))"
        by (simp add: va_handle_general_inquiry_def Let_def c1_def)
      with inv1 show ?thesis by blast
    qed
  qed
qed

lemma va_property_steps:
  assumes inv: "list_all record_invariant (map snd (calls c))"
    and a: "va_handle_property_inquiry client_info p call_id env c = (r, c')"
  shows "\<exists>c2. list_all record_invariant (map snd (calls c2)) \<and>
           ((\<exists>e. r = Inl e \<and> c' = c2) \<or>
            (\<exists>outcome. r = Inr () \<and> c' = update_call_outcome c2 call_id outcome))"
proof (cases "random_choice property_client_responses (env_reply env)")
  case (Inl e)
  with a inv show ?thesis by (auto simp: va_handle_property_inquiry_def)
next
  case reply: (Inr reply)
  define c1 where "c1 = update_call_notes c call_id
      (conversation_note reply
         (dict_get (property_ai_responses p) reply (property_default_response p)))
      (env_now_note env)"
  have inv1: "list_all record_invariant (map snd (calls c1))"
    unfolding c1_def by (rule notes_keep_invariant[OF inv])
  show ?thesis
  proof (cases "reply = ''I'd like to schedule a viewing.''")
    case True
    with a reply have "\<exists>e. r = Inl e \<and> c' = c1"
      by (auto simp: va_handle_property_inquiry_def Let_def schedule_appointment_raises c1_def
          split: sum.splits)
    with inv1 show ?thesis by blast
  next
    case False
    with a reply have "r = Inr () \<and> c' = update_call_outcome c1 call_id ''Information provided''"
      by (simp add: va_handle_property_inquiry_def Let_def c1_def)
    with inv1 show ?thesis by blast
  qed
qed

lemma closing_keeps_invariant:
  assumes "\<exists>c2. list_all record_invariant (map snd (calls c2)) \<and>
           ((\<exists>e. r = Inl e \<and> c1 = c2) \<or>
            (\<exists>outcome. r = Inr () \<and> c1 = update_call_outcome c2 call_id outcome))"
  shows "list_all record_invariant (map snd (calls (snd
      (case (r, c1) of (Inl e, c1) \<Rightarrow> (Inl e, c1)
       | (Inr u, c1) \<Rightarrow> (Inr call_id, log_call_end c1 call_id now)))))"
  using assms outcome_then_end_keeps_invariant by auto

lemma va_make_call_keeps_invariant:
  assumes inv: "list_all record_invariant (map snd (calls c))"
  shows "list_all record_invariant
           (map snd (calls (snd (va_make_call properties client_info property_id env c))))"
proof (cases "dict_item client_info ''name''")
  case (Inl e)
  then show ?thesis by (simp add: va_make_call_def inv)
next
  case name: (Inr n)
  show ?thesis
  proof (cases "dict_item client_info ''phone''")
    case (Inl e)
    then show ?thesis using name by (simp add: va_make_call_def inv)
  next
    case phone: (Inr ph)
    define cid where "cid = ''call_'' @ str_int (env_epoch env) @ ''_'' @ str_nat (env_call_rand env)"
    define c0 where "c0 = snd (log_call_start c client_info (env_epoch env) (env_call_rand env)
                                 (env_now_start env))"
    have start: "log_call_start c client_info (env_epoch env) (env_call_rand env)
                   (env_now_start env) = (Inr cid, c0)"
      by (simp add: log_call_start_def Let_def cid_def c0_def)
    have inv0: "list_all record_invariant (map snd (calls c0))"
      unfolding c0_def by (rule start_keeps_invariant[OF inv])
    define h where "h = (case property_id of
         None \<Rightarrow> va_handle_general_inquiry client_info cid env c0
       | Some pid \<Rightarrow>
           if pid = [] then va_handle_general_inquiry client_info cid env c0
           else (case find (\<lambda>p. prop_id p = pid) properties of
                   None \<Rightarrow> va_handle_general_inquiry client_info cid env c0
                 | Some p \<Rightarrow> va_handle_property_inquiry client_info p cid env c0))"
    have eq: "va_make_call properties client_info property_id env c =
        (case h of (Inl e, c1) \<Rightarrow> (Inl e, c1)
         | (Inr u, c1) \<Rightarrow> (Inr cid, log_call_end c1 cid (env_now_end env)))"
      by (simp add: va_make_call_def name phone start Let_def h_def)
    obtain r c1 where rc: "h = (r, c1)" by (cases h)
    have "h = va_handle_general_inquiry client_info cid env c0 \<or>
          (\<exists>p. h = va_handle_property_inquiry client_info p cid env c0)"
      by (auto simp: h_def split: option.splits)
    then have "\<exists>c2. list_all record_invariant (map snd (calls c2)) \<and>
           ((\<exists>e. r = Inl e \<and> c1 = c2) \<or>
            (\<exists>outcome. r = Inr () \<and> c1 = update_call_outcome c2 cid outcome))"
      using rc va_general_steps[OF inv0, of client_info cid env r c1]
        va_property_steps[OF inv0, of client_info _ cid env r c1] by metis
    from closing_keeps_invariant[OF this, of "env_now_end env"]
    show ?thesis unfolding eq rc .
  qed
qed

lemma make_call_keeps_invariant:
  assumes inv: "list_all record_invariant (map snd (calls c))"
  shows "list_all record_invariant
           (map snd (calls (snd (make_call use_openai backend json_loads properties client_info
                                   property_id env c))))"
proof (cases "dict_item client_info ''name''")
  case (Inl e)
  then show ?thesis by (simp add: make_call_def inv)
next
  case name: (Inr n)
  show ?thesis
  proof (cases "dict_item client_info ''phone''")
    case (Inl e)
    then show ?thesis using name by (simp add: make_call_def inv)
  next
    case phone: (Inr ph)
    define cid where "cid = ''call_'' @ str_int (env_epoch env) @ ''_'' @ str_nat (env_call_rand env)"
    define c0 where "c0 = snd (log_call_start c client_info (env_epoch env) (env_call_rand env)
                                 (env_now_start env))"
    have start: "log_call_start c client_info (env_epoch env) (env_call_rand env)
                   (env_now_start env) = (Inr cid, c0)"
      by (simp add: log_call_start_def Let_def cid_def c0_def)
    have inv0: "list_all record_invariant (map snd (calls c0))"
      unfolding c0_def by (rule start_keeps_invariant[OF inv])
    define h where "h = (case property_id of
         None \<Rightarrow> handle_general_inquiry use_openai backend json_loads client_info cid [] env c0
       | Some pid \<Rightarrow>
           if pid = []
           then handle_general_inquiry use_openai backend json_loads client_info cid [] env c0
           else (case find (\<lambda>p. prop_id p = pid) properties of
                   None \<Rightarrow>
                     handle_general_inquiry use_openai backend json_loads client_info cid [] env c0
                 | Some p \<Rightarrow>
                     handle_property_inquiry use_openai backend client_info p cid [] env c0))"
    have eq: "make_call use_openai backend json_loads properties client_info property_id env c =
        (case h of (Inl e, c1) \<Rightarrow> (Inl e, c1)
         | (Inr u, c1) \<Rightarrow> (Inr cid, log_call_end c1 cid (env_now_end env)))"
      by (simp add: make_call_def name phone start Let_def h_def)
    obtain r c1 where rc: "h = (r, c1)" by (cases h)
    have "h = handle_general_inquiry use_openai backend json_loads client_info cid [] env c0 \<or>
          (\<exists>p. h = handle_property_inquiry use_openai backend client_info p cid [] env c0)"
      by (auto simp: h_def split: option.splits)
    then have "\<exists>c2. list_all record_invariant (map snd (calls c2)) \<and>
           ((\<exists>e. r = Inl e \<and> c1 = c2) \<or>
            (\<exists>outcome. r = Inr () \<and> c1 = update_call_outcome c2 cid outcome))"
      using rc general_steps[OF inv0, of use_openai backend json_loads client_info cid "[]" env r c1]
        property_steps[OF inv0, of use_openai backend client_info _ cid "[]" env r c1]
      by metis
    from closing_keeps_invariant[OF this, of "env_now_end env"]
    show ?thesis unfolding eq rc .
  qed
qed

text \<open>
  C8, as stated, fails: the ledger closes a call whose outcome was never set. After
  \<open>log_call_start\<close> and \<open>log_call_end\<close> alone, the record is completed with outcome
  \<open>None\<close>, so not every reachable record satisfies both halves of the invariant.
\<close>

theorem C8_outcome_not_required_counterexample:
  "\<not> list_all record_invariant (map snd (calls (run_ops
     [Log_call_start [(''name'', ''Jane Doe'')] 0 1000
        \<lparr>dt_year = 2024, dt_month = 1, dt_day = 31, dt_hour = 9, dt_minute = 0, dt_second = 0\<rparr>,
      Log_call_end ''call_0_1000''
        \<lparr>dt_year = 2024, dt_month = 1, dt_day = 31, dt_hour = 9, dt_minute = 2, dt_second = 5\<rparr>])))"
  by (simp add: run_ops_def crm_init_def log_call_start_def log_call_end_def record_invariant_def
      outcome_set_when_completed_def str_nat_1000 str_int_0 Let_def)

text \<open>
  C8, amended: after every sequence of ledger operations from the empty ledger, every
  call record has its end timestamp set exactly when its status is completed, and its
  duration set exactly when its status is completed. The ledger does not require an
  outcome before it completes a record: \<open>log_call_end\<close> leaves the outcome of every
  record as it found it. The order "outcome first, then completed" is kept by
  \<open>make_call\<close>: in both modules, started on a ledger whose records satisfy the whole
  invariant, it leaves a ledger whose records satisfy it, whether it returns or raises.
\<close>

theorem C8_end_fields_iff_completed:
  "list_all end_fields_iff_completed (map snd (calls (run_ops ops))) \<and>
   map (call_outcome \<circ> snd) (calls (log_call_end c call_id now)) =
     map (call_outcome \<circ> snd) (calls c) \<and>
   (list_all record_invariant (map snd (calls c)) \<longrightarrow>
      list_all record_invariant
        (map snd (calls (snd (va_make_call properties client_info property_id env c)))) \<and>
      list_all record_invariant
        (map snd (calls (snd (make_call use_openai backend json_loads properties client_info
                                property_id env c)))))"
proof (intro conjI impI)
  show "list_all end_fields_iff_completed (map snd (calls (run_ops ops)))"
    unfolding run_ops_def by (rule foldl_end_fields) (simp add: crm_init_def)
  show "map (call_outcome \<circ> snd) (calls (log_call_end c call_id now)) =
        map (call_outcome \<circ> snd) (calls c)"
    by (simp add: log_call_end_def map_entry_outcome)
next
  assume inv: "list_all record_invariant (map snd (calls c))"
  show "list_all record_invariant
          (map snd (calls (snd (va_make_call properties client_info property_id env c))))"
    by (rule va_make_call_keeps_invariant[OF inv])
  show "list_all record_invariant
          (map snd (calls (snd (make_call use_openai backend json_loads properties client_info
                                  property_id env c))))"
    by (rule make_call_keeps_invariant[OF inv])
qed

theorem C8_end_fields_iff_completed_witness:
  "list_all record_invariant (map snd (calls crm_init)) \<and>
   list_all record_invariant
     (map snd (calls (snd (va_make_call catalog
        [(''name'', ''Jane Doe''), (''phone'', ''(555) 987-6543'')] (Some ''prop002'')
        \<lparr>env_epoch = 1718442000, env_call_rand = 4711,
         env_now_start = \<lparr>dt_year = 2024, dt_month = 6, dt_day = 15, dt_hour = 9, dt_minute = 0,
                          dt_second = 0\<rparr>,
         env_reply = 5,
         env_now_note = \<lparr>dt_year = 2024, dt_month = 6, dt_day = 15, dt_hour = 9, dt_minute = 0,
                         dt_second = 40\<rparr>,
         env_outcome = 30,
         env_now_dates = \<lparr>dt_year = 2024, dt_month = 6, dt_day = 15, dt_hour = 9, dt_minute = 0,
                          dt_second = 41\<rparr>,
         env_date_1 = 0, env_time_1 = 1, env_date_2 = 0, env_time_2 = 2,
         env_apt_epoch = 1718442041, env_apt_rand = 2024,
         env_now_apt = \<lparr>dt_year = 2024, dt_month = 6, dt_day = 15, dt_hour = 9, dt_minute = 0,
                        dt_second = 41\<rparr>,
         env_now_end = \<lparr>dt_year = 2024, dt_month = 6, dt_day = 15, dt_hour = 9, dt_minute = 1,
                        dt_second = 5\<rparr>\<rparr> crm_init)))) \<and>
   list_all record_invariant
     (map snd (calls (snd (make_call True (\<lambda>messages. Inl (BackendError ''connection refused''))
        (\<lambda>text. Inl JSONDecodeError) catalog
        [(''name'', ''Jane Doe''), (''phone'', ''(555) 987-6543'')] (Some ''prop002'')
        \<lparr>env_epoch = 1718442000, env_call_rand = 4711,
         env_now_start = \<lparr>dt_year = 2024, dt_month = 6, dt_day = 15, dt_hour = 9, dt_minute = 0,
                          dt_second = 0\<rparr>,
         env_reply = 5,
         env_now_note = \<lparr>dt_year = 2024, dt_month = 6, dt_day = 15, dt_hour = 9, dt_minute = 0,
                         dt_second = 40\<rparr>,
         env_outcome = 30,
         env_now_dates = \<lparr>dt_year = 2024, dt_month = 6, dt_day = 15, dt_hour = 9, dt_minute = 0,
                          dt_second = 41\<rparr>,
         env_date_1 = 0, env_time_1 = 1, env_date_2 = 0, env_time_2 = 2,
         env_apt_epoch = 1718442041, env_apt_rand = 2024,
         env_now_apt = \<lparr>dt_year = 2024, dt_month = 6, dt_day = 15, dt_hour = 9, dt_minute = 0,
                        dt_second = 41\<rparr>,
         env_now_end = \<lparr>dt_year = 2024, dt_month = 6, dt_day = 15, dt_hour = 9, dt_minute = 1,
                        dt_second = 5\<rparr>\<rparr> crm_init))))"
proof -
  have empty: "list_all record_invariant (map snd (calls crm_init))"
    by (simp add: crm_init_def)
  from C8_end_fields_iff_completed
    [where ops = "[]" and c = crm_init and call_id = "''call_1718442000_4711''"
       and now = "\<lparr>dt_year = 2024, dt_month = 6, dt_day = 15, dt_hour = 9, dt_minute = 1,
                   dt_second = 5\<rparr>"
       and properties = catalog
       and client_info = "[(''name'', ''Jane Doe''), (''phone'', ''(555) 987-6543'')]"
       and property_id = "Some ''prop002''" and use_openai = True
       and backend = "\<lambda>messages. Inl (BackendError ''connection refused'')"
       and json_loads = "\<lambda>text. Inl JSONDecodeError"] empty
  show ?thesis by blast
qed

end
